theory Spec2Isabelle
  imports Complex_Main
begin

section \<open>Exceptions and the environment of the pipeline\<close>

text \<open>
  Every Python exception the pipeline can meet is a value; a function that may raise
  returns \<open>error + 'a\<close> with \<open>Inl\<close> the exception.  The constructors keep the
  Python class names.  \<open>err_text\<close> is \<open>str(e)\<close>, which the handlers put in their messages.
\<close>

datatype error =
    ValueError string
  | KeyError string
  | TypeError string
  | RequestException string
  | FileNotFoundError string
  | FileExistsError string
  | IsADirectoryError string
  | NotADirectoryError string
  | OSError string
  | ParserError string
  | DatabaseError string

fun err_text :: "error \<Rightarrow> string" where
  "err_text (ValueError m) = m"
| "err_text (KeyError k) = [CHR 0x27] @ k @ [CHR 0x27]"
| "err_text (TypeError m) = m"
| "err_text (RequestException m) = m"
| "err_text (FileNotFoundError p) = ''[Errno 2] No such file or directory: '' @ [CHR 0x27] @ p @ [CHR 0x27]"
| "err_text (FileExistsError p) = ''[Errno 17] File exists: '' @ [CHR 0x27] @ p @ [CHR 0x27]"
| "err_text (IsADirectoryError p) = ''[Errno 21] Is a directory: '' @ [CHR 0x27] @ p @ [CHR 0x27]"
| "err_text (NotADirectoryError p) = ''[Errno 20] Not a directory: '' @ [CHR 0x27] @ p @ [CHR 0x27]"
| "err_text (OSError m) = m"
| "err_text (ParserError m) = m"
| "err_text (DatabaseError m) = m"

section \<open>Floating-point numbers\<close>

text \<open>
  A Python \<open>float\<close> is an IEEE 754 binary64 number: a finite value, an infinity or a
  NaN.  A finite value is kept as the rational it denotes; the sign of a zero is not kept.
  \<open>double_of_rat\<close> rounds a rational to the nearest binary64 value, ties to even:
  53 significant bits, exponents from \<open>-1022\<close> (below that the spacing stays
  \<open>2\<^sup>-\<^sup>1\<^sup>0\<^sup>7\<^sup>4\<close>), overflow to an infinity from \<open>2\<^sup>1\<^sup>0\<^sup>2\<^sup>4\<close> on.
\<close>

datatype pyfloat = Fin rat | PInf | NInf | NaN

definition pow2 :: "int \<Rightarrow> rat" where
  "pow2 e = (if 0 \<le> e then 2 ^ nat e else 1 / 2 ^ nat (- e))"

definition pow10 :: "int \<Rightarrow> rat" where
  "pow10 e = (if 0 \<le> e then 10 ^ nat e else 1 / 10 ^ nat (- e))"

definition round_half_even :: "rat \<Rightarrow> int" where
  "round_half_even q =
     (let f = \<lfloor>q\<rfloor>; d = q - of_int f
      in if d < 1 / 2 then f else if 1 / 2 < d then f + 1 else if even f then f else f + 1)"

text \<open>\<open>bit_length n\<close> is the number of binary digits of a positive integer.\<close>

function bit_length :: "int \<Rightarrow> nat" where
  "bit_length n = (if n \<le> 0 then 0 else Suc (bit_length (n div 2)))"
  by pat_completeness auto
termination
  by (relation "measure nat") auto

declare bit_length.simps [simp del]

text \<open>
  \<open>floor_log2 q\<close> is the integer \<open>k\<close> with \<open>2\<^sup>k \<le> q < 2\<^sup>k\<^sup>+\<^sup>1\<close>, for a positive
  rational: one less than the number of binary digits of \<open>\<lfloor>q\<rfloor>\<close> from \<open>1\<close> on, and
  below \<open>1\<close> the negated number of binary digits of \<open>\<lceil>1 / q\<rceil> - 1\<close>.
\<close>

definition floor_log2 :: "rat \<Rightarrow> int" where
  "floor_log2 q =
     (if 1 \<le> q then int (bit_length \<lfloor>q\<rfloor>) - 1 else - int (bit_length (\<lceil>1 / q\<rceil> - 1)))"

definition double_of_rat :: "rat \<Rightarrow> pyfloat" where
  "double_of_rat q =
     (if q = 0 then Fin 0
      else let a = \<bar>q\<bar>;
               e = max (floor_log2 a) (- 1022);
               ulp = pow2 (e - 52);
               r = of_int (round_half_even (a / ulp)) * ulp
           in if pow2 1024 \<le> r then (if 0 < q then PInf else NInf)
              else Fin (if 0 < q then r else - r))"

text \<open>The comparison \<open>x > 0\<close>, the product \<open>x * y\<close> and the quotient \<open>x / y\<close> of IEEE 754.\<close>

fun fgt0 :: "pyfloat \<Rightarrow> bool" where
  "fgt0 (Fin a) = (0 < a)"
| "fgt0 PInf = True"
| "fgt0 NInf = False"
| "fgt0 NaN = False"

fun fsign :: "pyfloat \<Rightarrow> int" where
  "fsign (Fin a) = (if 0 < a then 1 else if a < 0 then - 1 else 0)"
| "fsign PInf = 1"
| "fsign NInf = - 1"
| "fsign NaN = 0"

definition inf_of_sign :: "int \<Rightarrow> pyfloat" where
  "inf_of_sign s = (if s = 0 then NaN else if 0 < s then PInf else NInf)"

fun fmul :: "pyfloat \<Rightarrow> pyfloat \<Rightarrow> pyfloat" where
  "fmul (Fin a) (Fin b) = double_of_rat (a * b)"
| "fmul NaN y = NaN"
| "fmul x NaN = NaN"
| "fmul x y = inf_of_sign (fsign x * fsign y)"

fun fdiv :: "pyfloat \<Rightarrow> pyfloat \<Rightarrow> pyfloat" where
  "fdiv (Fin a) (Fin b) = (if b = 0 then inf_of_sign (fsign (Fin a)) else double_of_rat (a / b))"
| "fdiv NaN y = NaN"
| "fdiv x NaN = NaN"
| "fdiv (Fin a) y = Fin 0"
| "fdiv x (Fin b) = inf_of_sign (fsign x * (if b < 0 then - 1 else 1))"
| "fdiv x y = NaN"

fun rint :: "pyfloat \<Rightarrow> pyfloat" where
  "rint (Fin a) = Fin (of_int (round_half_even a))"
| "rint x = x"

text \<open>
  \<open>np.round(x, 2)\<close> on a binary64 number: NumPy multiplies by \<open>10\<^sup>2\<close>, rounds to
  the nearest integer (ties to even) and divides by \<open>10\<^sup>2\<close>, every step in binary64.
\<close>

definition np_round :: "pyfloat \<Rightarrow> nat \<Rightarrow> pyfloat" where
  "np_round x decimals = fdiv (rint (fmul x (Fin (10 ^ decimals)))) (Fin (10 ^ decimals))"

section \<open>Strings and the parsing of numbers\<close>

text \<open>
  A string is a list of characters with code points below 256.  \<open>is_space\<close> holds for
  the characters \<open>str.strip()\<close> removes; \<open>float()\<close> removes the same ones but
  the four separators \<open>0x1C\<close> to \<open>0x1F\<close>.
\<close>

definition is_space :: "char \<Rightarrow> bool" where
  "is_space c = (c \<in> set [CHR 0x09, CHR 0x0A, CHR 0x0B, CHR 0x0C, CHR 0x0D,
                            CHR 0x1C, CHR 0x1D, CHR 0x1E, CHR 0x1F, CHR 0x20, CHR 0x85, CHR 0xA0])"

definition is_float_space :: "char \<Rightarrow> bool" where
  "is_float_space c = (c \<in> set [CHR 0x09, CHR 0x0A, CHR 0x0B, CHR 0x0C, CHR 0x0D,
                                  CHR 0x20, CHR 0x85, CHR 0xA0])"

definition strip_with :: "(char \<Rightarrow> bool) \<Rightarrow> string \<Rightarrow> string" where
  "strip_with sp s = rev (dropWhile sp (rev (dropWhile sp s)))"

definition strip :: "string \<Rightarrow> string" where
  "strip s = strip_with is_space s"

definition replace_char :: "char \<Rightarrow> string \<Rightarrow> string" where
  "replace_char c s = filter (\<lambda>x. x \<noteq> c) s"

definition is_digit :: "char \<Rightarrow> bool" where
  "is_digit c = (c \<in> set ''0123456789'')"

definition digit_value :: "char \<Rightarrow> int" where
  "digit_value c = of_char c - 48"

definition int_of_digits :: "string \<Rightarrow> int" where
  "int_of_digits ds = foldl (\<lambda>n c. 10 * n + digit_value c) 0 ds"

definition lower :: "char \<Rightarrow> char" where
  "lower c = (if (65::nat) \<le> of_char c \<and> (of_char c :: nat) \<le> 90
              then char_of (of_char c + (32::nat)) else c)"

fun show_nat :: "nat \<Rightarrow> string" where
  "show_nat n = (if n < 10 then [char_of (48 + n)] else show_nat (n div 10) @ [char_of (48 + n mod 10)])"

declare show_nat.simps [simp del]

text \<open>
  The text \<open>float()\<close> accepts, after stripping: an optional sign, then \<open>inf\<close>,
  \<open>infinity\<close> or \<open>nan\<close> in any case, or a decimal number: digits with an optional
  point (\<open>1\<close>, \<open>1.\<close>, \<open>.5\<close>, \<open>1.5\<close>) and an optional exponent.  An underscore may
  stand between two digits.  \<open>digits_more\<close> reads \<open>(["_"] digit)*\<close> and
  \<open>digitpart\<close> reads \<open>digit (["_"] digit)*\<close>; both return the digits read and the rest.
\<close>

fun digits_more :: "string \<Rightarrow> string \<times> string" where
  "digits_more [] = ([], [])"
| "digits_more [c] = (if is_digit c then ([c], []) else ([], [c]))"
| "digits_more (c # d # cs) =
     (if is_digit c then (case digits_more (d # cs) of (ds, r) \<Rightarrow> (c # ds, r))
      else if c = CHR ''_'' \<and> is_digit d then (case digits_more cs of (ds, r) \<Rightarrow> (d # ds, r))
      else ([], c # d # cs))"

definition digitpart :: "string \<Rightarrow> (string \<times> string) option" where
  "digitpart s =
     (case s of
        [] \<Rightarrow> None
      | c # cs \<Rightarrow> if is_digit c then (case digits_more cs of (ds, r) \<Rightarrow> Some (c # ds, r)) else None)"

definition take_sign :: "string \<Rightarrow> bool \<times> string" where
  "take_sign s =
     (case s of
        [] \<Rightarrow> (False, [])
      | c # cs \<Rightarrow> if c = CHR ''-'' then (True, cs) else if c = CHR ''+'' then (False, cs) else (False, s))"

text \<open>
  \<open>parse_exponent ip fp r\<close>: the integer digits \<open>ip\<close> and the fraction digits \<open>fp\<close>
  are read and \<open>r\<close> is left; the result is the pair \<open>(m, e)\<close> with the number
  \<open>m * 10\<^sup>e\<close>, or \<open>None\<close> when \<open>r\<close> is not an exponent.
\<close>

definition parse_exponent :: "string \<Rightarrow> string \<Rightarrow> string \<Rightarrow> (int \<times> int) option" where
  "parse_exponent ip fp r =
     (case r of
        [] \<Rightarrow> Some (int_of_digits (ip @ fp), - int (length fp))
      | c # r1 \<Rightarrow>
          if c = CHR ''e'' \<or> c = CHR ''E'' then
            (case take_sign r1 of
               (eneg, r2) \<Rightarrow>
                 (case digitpart r2 of
                    None \<Rightarrow> None
                  | Some (ed, r3) \<Rightarrow>
                      if r3 = [] then
                        Some (int_of_digits (ip @ fp),
                              (if eneg then - int_of_digits ed else int_of_digits ed)
                                - int (length fp))
                      else None))
          else None)"

definition parse_number :: "string \<Rightarrow> (int \<times> int) option" where
  "parse_number u =
     (case digitpart u of
        Some (ip, r1) \<Rightarrow>
          (case r1 of
             [] \<Rightarrow> parse_exponent ip [] r1
           | c # r2 \<Rightarrow>
               if c = CHR ''.'' then
                 (case digitpart r2 of
                    Some (fp, r3) \<Rightarrow> parse_exponent ip fp r3
                  | None \<Rightarrow> parse_exponent ip [] r2)
               else parse_exponent ip [] r1)
      | None \<Rightarrow>
          (case u of
             [] \<Rightarrow> None
           | c # r2 \<Rightarrow>
               if c = CHR ''.'' then
                 (case digitpart r2 of
                    Some (fp, r3) \<Rightarrow> parse_exponent [] fp r3
                  | None \<Rightarrow> None)
               else None))"

text \<open>\<open>float(s)\<close> on a string; \<open>None\<close> is the \<open>ValueError\<close> it raises.\<close>

definition py_float :: "string \<Rightarrow> pyfloat option" where
  "py_float s =
     (case take_sign (strip_with is_float_space s) of
        (neg, u) \<Rightarrow>
          if map lower u = ''inf'' \<or> map lower u = ''infinity'' then Some (if neg then NInf else PInf)
          else if map lower u = ''nan'' then Some NaN
          else (case parse_number u of
                  None \<Rightarrow> None
                | Some (m, e) \<Rightarrow>
                    Some (double_of_rat ((if neg then - 1 else 1) * of_int m * pow10 e))))"

section \<open>Data frames\<close>

text \<open>
  A cell of a \<open>DataFrame\<close> is a string or a number; a \<open>DataFrame\<close> is the list of its
  columns in order, each a label and the cells of the column.  A table of the page is
  the list of its rows, each the list of the texts of its cells.
\<close>

datatype cell = Str string | Num pyfloat

type_synonym dataframe = "(string \<times> cell list) list"

type_synonym html_table = "string list list"

text \<open>
  A value stored in SQLite is a text, a real number or \<open>NULL\<close>; a stored table is the
  list of its columns, as a \<open>DataFrame\<close> is.
\<close>

datatype sqlval = SqlText string | SqlReal pyfloat | SqlNull

type_synonym sqltable = "(string \<times> sqlval list) list"

text \<open>
  The world the program runs in.  \<open>log_path\<close> is the configured \<open>LOG_PATH\<close> and
  \<open>clock\<close> the text \<open>datetime.now().strftime(LOG_FORMAT)\<close> returns.  The file system
  is a set of directories and a map from paths to the text of regular files; paths are
  compared as they are written.  \<open>open_fault\<close> and \<open>write_fault\<close> are the failures
  the operating system may add on its own (permissions, a full disk, an encoding error):
  the exception raised when a path is opened for writing, and when a text is written to it.
  \<open>console\<close> collects what \<open>print\<close> writes.

  The libraries the program calls are fields too, each the function of its inputs that
  the library computes: \<open>http_get\<close> is \<open>requests.get(url, timeout=30)\<close> followed by
  \<open>raise_for_status()\<close>, returning the text of the response; \<open>wikitables\<close> is the
  HTML parser with \<open>find_all('table', {'class': 'wikitable'})\<close>, each table given by
  \<open>find_all('tr')\<close> and each row by the \<open>text\<close> of \<open>find_all(['td', 'th'])\<close>;
  \<open>csv_parse\<close> is \<open>pd.read_csv\<close> on the text of a file and \<open>csv_render\<close> is
  \<open>to_csv(index=False)\<close>.  The database behind the connection is \<open>tables\<close>, from
  table names to contents; \<open>db_fault\<close> is the exception the database raises when
  asked to store a frame under a table name (a closed connection, a name or a frame it
  rejects), if any.
\<close>

record world =
  log_path :: string
  clock :: string
  dirs :: "string set"
  files :: "string \<rightharpoonup> string"
  open_fault :: "string \<Rightarrow> error option"
  write_fault :: "string \<Rightarrow> string \<Rightarrow> error option"
  console :: "string list"
  http_get :: "string \<Rightarrow> error + string"
  wikitables :: "string \<Rightarrow> html_table list"
  csv_parse :: "string \<Rightarrow> error + dataframe"
  csv_render :: "dataframe \<Rightarrow> string"
  db_fault :: "string \<Rightarrow> dataframe \<Rightarrow> error option"
  tables :: "string \<rightharpoonup> sqltable"

definition print :: "string \<Rightarrow> world \<Rightarrow> world" where
  "print line w = w\<lparr>console := console w @ [line]\<rparr>"

subsection \<open>Paths\<close>

text \<open>
  \<open>os.path.split\<close> of \<open>posixpath\<close>: the head is the text up to and including the
  last slash, with its trailing slashes removed unless it consists of slashes only; the
  tail is the rest.  \<open>os.path.dirname\<close> is the head.
\<close>

definition all_slashes :: "string \<Rightarrow> bool" where
  "all_slashes p = list_all (\<lambda>c. c = CHR ''/'') p"

definition rstrip_slashes :: "string \<Rightarrow> string" where
  "rstrip_slashes p = rev (dropWhile (\<lambda>c. c = CHR ''/'') (rev p))"

definition split_path :: "string \<Rightarrow> string \<times> string" where
  "split_path p =
     (let head = rev (dropWhile (\<lambda>c. c \<noteq> CHR ''/'') (rev p));
          tail = rev (takeWhile (\<lambda>c. c \<noteq> CHR ''/'') (rev p))
      in (if head \<noteq> [] \<and> \<not> all_slashes head then rstrip_slashes head else head, tail))"

definition dirname :: "string \<Rightarrow> string" where
  "dirname p = fst (split_path p)"

text \<open>
  A path names a directory when it is among \<open>dirs\<close>, trailing slashes aside, or is the
  root; it exists when it names a directory or a regular file.
\<close>

definition is_dir :: "world \<Rightarrow> string \<Rightarrow> bool" where
  "is_dir w p = (p \<noteq> [] \<and> (all_slashes p \<or> rstrip_slashes p \<in> dirs w))"

definition path_exists :: "world \<Rightarrow> string \<Rightarrow> bool" where
  "path_exists w p = (is_dir w p \<or> files w p \<noteq> None)"

text \<open>
  Opening a path for writing (modes \<open>"a"\<close> and \<open>"w"\<close>): the path must not be empty nor a
  directory, and its directory part must be a directory that exists (an empty directory
  part is the current directory).  A file that is absent is created; mode \<open>"w"\<close>
  truncates it.
\<close>

definition open_for_writing :: "bool \<Rightarrow> string \<Rightarrow> world \<Rightarrow> error + world" where
  "open_for_writing trunc p w =
     (if p = [] then Inl (FileNotFoundError p)
      else if is_dir w p then Inl (IsADirectoryError p)
      else if dirname p \<noteq> [] \<and> \<not> is_dir w (dirname p)
        then Inl (if files w (dirname p) \<noteq> None then NotADirectoryError p else FileNotFoundError p)
      else case open_fault w p of
             Some e \<Rightarrow> Inl e
           | None \<Rightarrow>
               Inr (w\<lparr>files := (files w)(p \<mapsto>
                      (case files w p of
                         None \<Rightarrow> []
                       | Some old \<Rightarrow> if trunc then [] else old))\<rparr>))"

definition file_write :: "string \<Rightarrow> string \<Rightarrow> world \<Rightarrow> error + world" where
  "file_write p txt w =
     (case write_fault w p txt of
        Some e \<Rightarrow> Inl e
      | None \<Rightarrow> Inr (w\<lparr>files := (files w)(p \<mapsto> (case files w p of None \<Rightarrow> [] | Some old \<Rightarrow> old) @ txt)\<rparr>))"

text \<open>
  \<open>os.mkdir(name)\<close>: the name must be new and its directory part must be a directory
  that exists.
\<close>

definition mkdir :: "string \<Rightarrow> world \<Rightarrow> error + world" where
  "mkdir name w =
     (if name = [] then Inl (FileNotFoundError name)
      else if path_exists w name \<or> files w (rstrip_slashes name) \<noteq> None then Inl (FileExistsError name)
      else if dirname (rstrip_slashes name) \<noteq> [] \<and> \<not> is_dir w (dirname (rstrip_slashes name))
        then Inl (if files w (dirname (rstrip_slashes name)) \<noteq> None
                  then NotADirectoryError name else FileNotFoundError name)
      else case open_fault w name of
             Some e \<Rightarrow> Inl e
           | None \<Rightarrow> Inr (w\<lparr>dirs := insert (rstrip_slashes name) (dirs w)\<rparr>))"

text \<open>
  The last lines of \<open>os.makedirs\<close> with \<open>exist_ok=True\<close>: \<open>mkdir\<close>, whose
  failure is passed over when the name is a directory already.
\<close>

definition mkdir_exist_ok :: "string \<Rightarrow> world \<Rightarrow> error + world" where
  "mkdir_exist_ok name w =
     (case mkdir name w of
        Inl e \<Rightarrow> if is_dir w name then Inr w else Inl e
      | Inr w' \<Rightarrow> Inr w')"

text \<open>
  The head and tail \<open>os.makedirs\<close> works with: those of \<open>os.path.split(name)\<close>, or
  of the head again when the tail is empty (a name ending in a slash).
\<close>

definition makedirs_split :: "string \<Rightarrow> string \<times> string" where
  "makedirs_split name =
     (if snd (split_path name) = [] then split_path (fst (split_path name)) else split_path name)"

text \<open>
  \<open>os.makedirs(name, exist_ok=True)\<close>: when the head is absent it is made first, and a
  \<open>FileExistsError\<close> from that call is passed over; a tail \<open>.\<close> needs nothing more.
\<close>

function makedirs :: "string \<Rightarrow> world \<Rightarrow> error + world" where
  "makedirs name w =
     (if fst (makedirs_split name) \<noteq> [] \<and> snd (makedirs_split name) \<noteq> []
         \<and> \<not> path_exists w (fst (makedirs_split name))
      then (case makedirs (fst (makedirs_split name)) w of
              Inl e \<Rightarrow>
                (case e of
                   FileExistsError _ \<Rightarrow>
                     if snd (makedirs_split name) = ''.'' then Inr w else mkdir_exist_ok name w
                 | _ \<Rightarrow> Inl e)
            | Inr w1 \<Rightarrow>
                if snd (makedirs_split name) = ''.'' then Inr w1 else mkdir_exist_ok name w1)
      else mkdir_exist_ok name w)"
  by pat_completeness auto
termination
proof (relation "measure (\<lambda>(name, w). length name)")
  show "wf (measure (\<lambda>(name, w). length name))"
    by simp
next
  fix name :: string and w :: world
  assume a: "fst (makedirs_split name) \<noteq> [] \<and> snd (makedirs_split name) \<noteq> []
      \<and> \<not> path_exists w (fst (makedirs_split name))"
  have rs: "length (rstrip_slashes q) \<le> length q" for q
    using length_dropWhile_le [of "\<lambda>c. c = CHR ''/''" "rev q"] by (simp add: rstrip_slashes_def)
  have hd_le: "length (fst (split_path p)) \<le> length (dropWhile (\<lambda>c. c \<noteq> CHR ''/'') (rev p))" for p
    using rs [of "rev (dropWhile (\<lambda>c. c \<noteq> CHR ''/'') (rev p))"]
    by (simp add: split_path_def Let_def)
  have le: "length (fst (split_path p)) \<le> length p" for p
    using hd_le [of p] length_dropWhile_le [of "\<lambda>c. c \<noteq> CHR ''/''" "rev p"] by simp
  have lt: "length (fst (split_path p)) < length p" if t: "snd (split_path p) \<noteq> []" for p
  proof -
    have "length (takeWhile (\<lambda>c. c \<noteq> CHR ''/'') (rev p) @ dropWhile (\<lambda>c. c \<noteq> CHR ''/'') (rev p))
        = length p"
      by simp
    then have sum: "length (takeWhile (\<lambda>c. c \<noteq> CHR ''/'') (rev p))
        + length (dropWhile (\<lambda>c. c \<noteq> CHR ''/'') (rev p)) = length p"
      by (simp only: length_append)
    from t have "0 < length (takeWhile (\<lambda>c. c \<noteq> CHR ''/'') (rev p))"
      by (simp add: split_path_def Let_def)
    with sum have "length (dropWhile (\<lambda>c. c \<noteq> CHR ''/'') (rev p)) < length p"
      by arith
    with hd_le [of p] show ?thesis
      by arith
  qed
  have "length (fst (makedirs_split name)) < length name"
  proof (cases "snd (split_path name) = []")
    case True
    with a have "snd (split_path (fst (split_path name))) \<noteq> []"
      by (simp add: makedirs_split_def)
    then have "length (fst (split_path (fst (split_path name)))) < length (fst (split_path name))"
      by (rule lt)
    with le [of name] True show ?thesis
      by (simp add: makedirs_split_def)
  next
    case False
    with lt [of name] show ?thesis
      by (simp add: makedirs_split_def)
  qed
  then show "((fst (makedirs_split name), w), (name, w)) \<in> measure (\<lambda>(name, w). length name)"
    by simp
qed

declare makedirs.simps [simp del]

section \<open>The logger\<close>

text \<open>
  \<open>log_body\<close> is the \<open>try\<close> block of \<open>log_progress\<close>: take the time stamp, open the
  log file for appending, write one line, print the message.  \<open>log_progress\<close> adds the
  default path and the handler \<open>except Exception\<close>, which prints the failure.  Taking
  the time and printing to the console are taken to succeed; opening the file and writing
  to it may raise.
\<close>

definition log_body :: "string \<Rightarrow> string \<Rightarrow> world \<Rightarrow> (error + unit) \<times> world" where
  "log_body message log_file w =
     (let stamp = clock w in
      case open_for_writing False log_file w of
        Inl e \<Rightarrow> (Inl e, w)
      | Inr w1 \<Rightarrow>
          (case file_write log_file (stamp @ '' : '' @ message @ [CHR 0x0A]) w1 of
             Inl e \<Rightarrow> (Inl e, w1)
           | Inr w2 \<Rightarrow> (Inr (), print (''[OK] '' @ message) w2)))"

definition log_progress :: "string \<Rightarrow> string option \<Rightarrow> world \<Rightarrow> (error + unit) \<times> world" where
  "log_progress message log_file w =
     (let log_file = (case log_file of None \<Rightarrow> log_path w | Some p \<Rightarrow> p) in
      case log_body message log_file w of
        (Inl e, w') \<Rightarrow> (Inr (), print (''Logging error: '' @ err_text e) w')
      | (Inr u, w') \<Rightarrow> (Inr u, w'))"

text \<open>A call \<open>log_progress(message)\<close> whose result is not used: the world it leaves.\<close>

definition log :: "string \<Rightarrow> world \<Rightarrow> world" where
  "log message w = snd (log_progress message None w)"

section \<open>Extraction\<close>

text \<open>
  The loop of \<open>extract\<close> over the rows after the header, with the list \<open>data\<close> it
  appends to.  A row with fewer than three cells is passed over; so is a row whose third
  cell \<open>float()\<close> rejects (\<open>except (ValueError, TypeError): continue\<close>) or whose
  number is not greater than zero.
\<close>

fun extract_rows :: "html_table \<Rightarrow> (string \<times> pyfloat) list \<Rightarrow> (string \<times> pyfloat) list" where
  "extract_rows [] data = data"
| "extract_rows (cols # rows) data =
     (if 3 \<le> length cols then
        (let name = strip (cols ! 1);
             mc = replace_char (CHR '','') (replace_char (CHR 0x0A) (strip (cols ! 2)))
         in case py_float mc of
              None \<Rightarrow> extract_rows rows data
            | Some mc_value \<Rightarrow>
                if fgt0 mc_value then extract_rows rows (data @ [(name, mc_value)])
                else extract_rows rows data)
      else extract_rows rows data)"

text \<open>
  \<open>pd.DataFrame(data, columns=table_attribs)\<close> on rows of two cells: pandas raises a
  \<open>ValueError\<close> unless two labels are given.
\<close>

definition DataFrame :: "(string \<times> pyfloat) list \<Rightarrow> string list \<Rightarrow> error + dataframe" where
  "DataFrame data columns =
     (if length columns \<noteq> 2
      then Inl (ValueError (show_nat (length columns) @ '' columns passed, passed data had 2 columns''))
      else Inr [(columns ! 0, map (\<lambda>r. Str (fst r)) data), (columns ! 1, map (\<lambda>r. Num (snd r)) data)])"

text \<open>The \<open>try\<close> block of \<open>extract\<close>.\<close>

definition extract_body :: "string \<Rightarrow> string list \<Rightarrow> world \<Rightarrow> (error + dataframe) \<times> world" where
  "extract_body url table_attribs w0 =
     (let w = log ''Starting data extraction from Wikipedia...'' w0 in
      case http_get w url of
        Inl e \<Rightarrow> (Inl e, w)
      | Inr response_text \<Rightarrow>
          (case wikitables w response_text of
             [] \<Rightarrow> (Inl (ValueError ''Required tables not found''), w)
           | target_table # _ \<Rightarrow>
               (let data = extract_rows (tl target_table) [] in
                if data = [] then (Inl (ValueError ''No valid data found''), w)
                else case DataFrame data table_attribs of
                       Inl e \<Rightarrow> (Inl e, w)
                     | Inr df \<Rightarrow>
                         (Inr df, log (''Successfully extracted '' @ show_nat (length data) @ '' banks'') w))))"

text \<open>
  The function \<open>extract\<close> of the source (named \<open>extract_data\<close> here, \<open>extract\<close>
  being a command of Isabelle): the two handlers log the failure and raise it again.
\<close>

definition extract_data :: "string \<Rightarrow> string list \<Rightarrow> world \<Rightarrow> (error + dataframe) \<times> world" where
  "extract_data url table_attribs w0 =
     (case extract_body url table_attribs w0 of
        (Inl e, w) \<Rightarrow>
          (Inl e, log ((case e of RequestException _ \<Rightarrow> ''Connection error: ''
                                | _ \<Rightarrow> ''Extraction error: '') @ err_text e) w)
      | (Inr df, w) \<Rightarrow> (Inr df, w))"

section \<open>Transformation\<close>

text \<open>
  What \<open>for x in df[label]\<close> runs over.  Without a column of that label the lookup
  raises \<open>KeyError\<close>; with one it is the cells of the column; with several, \<open>df[label]\<close>
  is a frame again and the loop runs over its column labels.
\<close>

definition column_values :: "string \<Rightarrow> dataframe \<Rightarrow> error + cell list" where
  "column_values label df =
     (case filter (\<lambda>c. fst c = label) df of
        [] \<Rightarrow> Inl (KeyError label)
      | [c] \<Rightarrow> Inr (snd c)
      | c # d # cs \<Rightarrow> Inr (map (\<lambda>c. Str (fst c)) (c # d # cs)))"

text \<open>
  The assignment \<open>df[label] = values\<close>: the columns of that label take the new cells, or
  a new last column is added.  The list assigned below has one entry for each row, as
  pandas requires.
\<close>

definition set_column :: "string \<Rightarrow> cell list \<Rightarrow> dataframe \<Rightarrow> dataframe" where
  "set_column label vs df =
     (if label \<in> set (map fst df)
      then map (\<lambda>c. if fst c = label then (label, vs) else c) df
      else df @ [(label, vs)])"

text \<open>The product \<open>x * rate\<close>: only two numbers can be multiplied.\<close>

fun py_mul :: "cell \<Rightarrow> cell \<Rightarrow> error + pyfloat" where
  "py_mul (Num x) (Num r) = Inr (fmul x r)"
| "py_mul (Str a) (Str b) =
     Inl (TypeError (''can'' @ [CHR 0x27] @ ''t multiply sequence by non-int of type ''
                      @ [CHR 0x27] @ ''str'' @ [CHR 0x27]))"
| "py_mul x r =
     Inl (TypeError (''can'' @ [CHR 0x27] @ ''t multiply sequence by non-int of type ''
                      @ [CHR 0x27] @ ''float'' @ [CHR 0x27]))"

text \<open>
  The comprehension \<open>[np.round(x * exchange_rate[currency], 2) for x in column]\<close>: the
  rate is looked up anew for every cell, so an empty column looks nothing up.
\<close>

fun convert_column :: "(cell \<rightharpoonup> cell) \<Rightarrow> string \<Rightarrow> cell list \<Rightarrow> error + cell list" where
  "convert_column exchange_rate currency [] = Inr []"
| "convert_column exchange_rate currency (x # xs) =
     (case exchange_rate (Str currency) of
        None \<Rightarrow> Inl (KeyError currency)
      | Some rate \<Rightarrow>
          (case py_mul x rate of
             Inl e \<Rightarrow> Inl e
           | Inr y \<Rightarrow>
               (case convert_column exchange_rate currency xs of
                  Inl e \<Rightarrow> Inl e
                | Inr ys \<Rightarrow> Inr (Num (np_round y 2) # ys))))"

text \<open>One of the three statements \<open>df[label] = [... for x in df['MC_USD_Billion']]\<close>.\<close>

definition assign_converted ::
  "(cell \<rightharpoonup> cell) \<Rightarrow> string \<Rightarrow> string \<Rightarrow> dataframe \<Rightarrow> error + dataframe" where
  "assign_converted exchange_rate currency label df =
     (case column_values ''MC_USD_Billion'' df of
        Inl e \<Rightarrow> Inl e
      | Inr xs \<Rightarrow>
          (case convert_column exchange_rate currency xs of
             Inl e \<Rightarrow> Inl e
           | Inr vs \<Rightarrow> Inr (set_column label vs df)))"

text \<open>
  \<open>rates_df.set_index('Currency').to_dict()['Rate']\<close>: the dictionary from the cells of
  the column \<open>Currency\<close> to those of the column \<open>Rate\<close>, a later row winning over an
  earlier one with the same key.  \<open>pd.read_csv\<close> gives columns of distinct labels.
\<close>

definition rates_of_frame :: "dataframe \<Rightarrow> error + (cell \<rightharpoonup> cell)" where
  "rates_of_frame rates_df =
     (case map_of rates_df ''Currency'' of
        None \<Rightarrow> Inl (KeyError (''None of ['' @ [CHR 0x27] @ ''Currency'' @ [CHR 0x27]
                              @ ''] are in the columns''))
      | Some keys \<Rightarrow>
          (case map_of rates_df ''Rate'' of
             None \<Rightarrow> Inl (KeyError ''Rate'')
           | Some rates \<Rightarrow> Inr (map_of (rev (zip keys rates)))))"

text \<open>The configured fallback; a literal such as \<open>0.93\<close> is the nearest binary64 number.\<close>

definition DEFAULT_EXCHANGE_RATES :: "cell \<rightharpoonup> cell" where
  "DEFAULT_EXCHANGE_RATES =
     map_of [(Str ''EUR'', Num (double_of_rat (93 / 100))),
             (Str ''GBP'', Num (double_of_rat (8 / 10))),
             (Str ''INR'', Num (double_of_rat (8295 / 100)))]"

definition read_csv :: "string \<Rightarrow> world \<Rightarrow> error + dataframe" where
  "read_csv p w =
     (if is_dir w p then Inl (IsADirectoryError p)
      else case files w p of
             None \<Rightarrow> Inl (FileNotFoundError p)
           | Some txt \<Rightarrow> csv_parse w txt)"

text \<open>The \<open>if os.path.exists(csv_path)\<close> statement of \<open>transform\<close>.\<close>

definition load_rates :: "string \<Rightarrow> world \<Rightarrow> (error + (cell \<rightharpoonup> cell)) \<times> world" where
  "load_rates csv_path w =
     (if path_exists w csv_path then
        (case read_csv csv_path w of
           Inl e \<Rightarrow> (Inl e, w)
         | Inr rates_df \<Rightarrow> (rates_of_frame rates_df, w))
      else (Inr DEFAULT_EXCHANGE_RATES, log ''Exchange rates CSV not found, using default rates'' w))"

text \<open>
  \<open>transform\<close> changes the frame it is given and returns that same object.  The model
  returns three things: the result (the exception, or the frame returned), the state in
  which the call leaves the frame of the caller, and the world.  \<open>transform_body\<close> is the
  \<open>try\<close> block; the handler of \<open>transform\<close> logs the failure and raises it again.
\<close>

definition transform_body ::
  "dataframe \<Rightarrow> string \<Rightarrow> world \<Rightarrow> (error + dataframe) \<times> dataframe \<times> world" where
  "transform_body df csv_path w0 =
     (case load_rates csv_path (log ''Starting data transformation...'' w0) of
        (Inl e, w) \<Rightarrow> (Inl e, df, w)
      | (Inr exchange_rate, w) \<Rightarrow>
          (case assign_converted exchange_rate ''GBP'' ''MC_GBP_Billion'' df of
             Inl e \<Rightarrow> (Inl e, df, w)
           | Inr df1 \<Rightarrow>
               (case assign_converted exchange_rate ''EUR'' ''MC_EUR_Billion'' df1 of
                  Inl e \<Rightarrow> (Inl e, df1, w)
                | Inr df2 \<Rightarrow>
                    (case assign_converted exchange_rate ''INR'' ''MC_INR_Billion'' df2 of
                       Inl e \<Rightarrow> (Inl e, df2, w)
                     | Inr df3 \<Rightarrow>
                         (Inr df3, df3,
                          log ''Data transformation complete. Initiating Loading process'' w)))))"

definition transform ::
  "dataframe \<Rightarrow> string \<Rightarrow> world \<Rightarrow> (error + dataframe) \<times> dataframe \<times> world" where
  "transform df csv_path w0 =
     (case transform_body df csv_path w0 of
        (Inl e, df', w) \<Rightarrow> (Inl e, df', log (''Transformation error: '' @ err_text e) w)
      | (Inr r, df', w) \<Rightarrow> (Inr r, df', w))"

section \<open>Loading\<close>

text \<open>\<open>df.to_csv(output_path, index=False)\<close>: open the path for writing and write the text.\<close>

definition to_csv :: "dataframe \<Rightarrow> string \<Rightarrow> world \<Rightarrow> error + world" where
  "to_csv df output_path w =
     (case open_for_writing True output_path w of
        Inl e \<Rightarrow> Inl e
      | Inr w1 \<Rightarrow> file_write output_path (csv_render w df) w1)"

definition load_to_csv :: "dataframe \<Rightarrow> string \<Rightarrow> world \<Rightarrow> (error + unit) \<times> world" where
  "load_to_csv df output_path w0 =
     (case makedirs (dirname output_path) w0 of
        Inl e \<Rightarrow> (Inl e, log (''CSV save error: '' @ err_text e) w0)
      | Inr w1 \<Rightarrow>
          (case to_csv df output_path w1 of
             Inl e \<Rightarrow> (Inl e, log (''CSV save error: '' @ err_text e) w1)
           | Inr w2 \<Rightarrow> (Inr (), log (''Data saved to CSV file: '' @ output_path) w2)))"

text \<open>
  \<open>df.to_sql(table_name, sql_connection, if_exists='replace', index=False)\<close>: the table
  of that name is dropped and made anew from the frame.  SQLite stores a string as text, a
  number as a real and a NaN as \<open>NULL\<close>.  The connection that \<open>load_to_db\<close> is given
  is the database of the world, so the model has no argument for it.
\<close>

fun to_sql_value :: "cell \<Rightarrow> sqlval" where
  "to_sql_value (Str s) = SqlText s"
| "to_sql_value (Num NaN) = SqlNull"
| "to_sql_value (Num x) = SqlReal x"

definition sql_table_of :: "dataframe \<Rightarrow> sqltable" where
  "sql_table_of df = map (\<lambda>c. (fst c, map to_sql_value (snd c))) df"

definition to_sql :: "dataframe \<Rightarrow> string \<Rightarrow> world \<Rightarrow> error + world" where
  "to_sql df table_name w =
     (case db_fault w table_name df of
        Some e \<Rightarrow> Inl e
      | None \<Rightarrow> Inr (w\<lparr>tables := (tables w)(table_name \<mapsto> sql_table_of df)\<rparr>))"

definition load_to_db :: "dataframe \<Rightarrow> string \<Rightarrow> world \<Rightarrow> (error + unit) \<times> world" where
  "load_to_db df table_name w0 =
     (case to_sql df table_name w0 of
        Inl e \<Rightarrow> (Inl e, log (''Database load error: '' @ err_text e) w0)
      | Inr w1 \<Rightarrow> (Inr (), log ''Data loaded to Database as a table, Executing queries'' w1))"

section \<open>Notions used in the statements\<close>

text \<open>
  The cleaned text of the third cell of a row, and the record a row gives: none when the
  row has fewer than three cells, when \<open>float()\<close> rejects the text, or when the number
  is not greater than zero.
\<close>

definition mc_text :: "string list \<Rightarrow> string" where
  "mc_text cols = replace_char (CHR '','') (replace_char (CHR 0x0A) (strip (cols ! 2)))"

definition row_record :: "string list \<Rightarrow> (string \<times> pyfloat) option" where
  "row_record cols =
     (if 3 \<le> length cols then
        (case py_float (mc_text cols) of
           None \<Rightarrow> None
         | Some v \<Rightarrow> if fgt0 v then Some (strip (cols ! 1), v) else None)
      else None)"

text \<open>
  Two worlds that agree on everything but the files and the console.
\<close>

definition same_env :: "world \<Rightarrow> world \<Rightarrow> bool" where
  "same_env w w' =
     (log_path w' = log_path w \<and> clock w' = clock w \<and> dirs w' = dirs w \<and>
      open_fault w' = open_fault w \<and> write_fault w' = write_fault w \<and>
      http_get w' = http_get w \<and> wikitables w' = wikitables w \<and>
      csv_parse w' = csv_parse w \<and> csv_render w' = csv_render w \<and>
      db_fault w' = db_fault w \<and> tables w' = tables w)"

text \<open>
  Concrete worlds and inputs for the examples: an empty file system in which every write
  succeeds, no network, no tables; the same world with a page of one table; the table of
  the scenario of the specification, with its header row.
\<close>

definition world0 :: world where
  "world0 = \<lparr>log_path = ''code_log.txt'', clock = ''2023-Sep-08-09:16:35'', dirs = {},
      files = Map.empty, open_fault = (\<lambda>_. None), write_fault = (\<lambda>_ _. None), console = [],
      http_get = (\<lambda>_. Inl (RequestException ''no route to host'')), wikitables = (\<lambda>_. []),
      csv_parse = (\<lambda>_. Inl (ParserError ''No columns to parse from file'')),
      csv_render = (\<lambda>_. []), db_fault = (\<lambda>_ _. None), tables = Map.empty\<rparr>"

definition page_world :: "html_table \<Rightarrow> world" where
  "page_world t = world0\<lparr>http_get := (\<lambda>_. Inr ''<html>''), wikitables := (\<lambda>_. [t])\<rparr>"

definition scenario_table :: html_table where
  "scenario_table =
     [[''Rank'', ''Bank name'', ''Market cap (US$ billion)''],
      [''1'', ''Bank A'', ''100''],
      [''2'', ''Bank B'', ''abc''],
      [''3'', ''Bank C'', ''-5''],
      [''4'', ''Bank D'', ''50'']]"

text \<open>
  A table none of whose rows gives a record, and a table with a row whose name cell is
  empty.
\<close>

definition invalid_table :: html_table where
  "invalid_table =
     [[''Rank'', ''Bank name'', ''Market cap (US$ billion)''],
      [''1'', ''Bank B'', ''abc''],
      [''2'', ''Bank C'', ''-5''],
      [''3'', ''Bank E'']]"

definition unnamed_table :: html_table where
  "unnamed_table =
     [[''Rank'', ''Bank name'', ''Market cap (US$ billion)''],
      [''1'', '''', ''100'']]"

text \<open>
  The rate table \<open>transform\<close> works with: read from the file when the path exists,
  the default table otherwise.  The converted column for one rate, and the frame with its
  three converted columns.  The first of the three currencies a table has no rate for.
  \<open>log_ok\<close> holds when the log file can be opened and written.  Then the sample
  frame of the tests, the default rates, and a world with a rate file.
\<close>

definition rate_table :: "string \<Rightarrow> world \<Rightarrow> error + (cell \<rightharpoonup> cell)" where
  "rate_table csv_path w = fst (load_rates csv_path (log ''Starting data transformation...'' w))"

definition converted :: "pyfloat \<Rightarrow> pyfloat list \<Rightarrow> cell list" where
  "converted rate usd = map (\<lambda>u. Num (np_round (fmul u rate) 2)) usd"

definition enriched :: "pyfloat \<Rightarrow> pyfloat \<Rightarrow> pyfloat \<Rightarrow> pyfloat list \<Rightarrow> dataframe \<Rightarrow> dataframe" where
  "enriched gbp eur inr usd df =
     set_column ''MC_INR_Billion'' (converted inr usd)
       (set_column ''MC_EUR_Billion'' (converted eur usd)
         (set_column ''MC_GBP_Billion'' (converted gbp usd) df))"

definition derived_labels :: "string list" where
  "derived_labels = [''MC_GBP_Billion'', ''MC_EUR_Billion'', ''MC_INR_Billion'']"

definition sample_data :: dataframe where
  "sample_data = [(''Name'', [Str ''Test Bank 1'', Str ''Test Bank 2'']),
                  (''MC_USD_Billion'', [Num (Fin 100), Num (Fin 200)])]"

definition first_missing :: "(cell \<rightharpoonup> cell) \<Rightarrow> string" where
  "first_missing R =
     (if R (Str ''GBP'') = None then ''GBP'' else if R (Str ''EUR'') = None then ''EUR'' else ''INR'')"

definition csv_world :: "string \<Rightarrow> dataframe \<Rightarrow> world" where
  "csv_world txt frame =
     world0\<lparr>dirs := {''./data''},
            files := [''./data/exchange_rate.csv'' \<mapsto> txt],
            csv_parse := (\<lambda>t. if t = txt then Inr frame
                               else Inl (ParserError ''Error tokenizing data''))\<rparr>"

definition rates_text :: string where
  "rates_text = ''Currency,Rate'' @ [CHR 0x0A] @ ''EUR,0.93'' @ [CHR 0x0A] @ ''GBP,0.8'' @ [CHR 0x0A]
                 @ ''INR,82.95'' @ [CHR 0x0A]"

definition rates_frame :: dataframe where
  "rates_frame = [(''Currency'', [Str ''EUR'', Str ''GBP'', Str ''INR'']),
                  (''Rate'', [Num (double_of_rat (93 / 100)), Num (double_of_rat (8 / 10)),
                              Num (double_of_rat (8295 / 100))])]"

definition eur_only_text :: string where
  "eur_only_text = ''Currency,Rate'' @ [CHR 0x0A] @ ''EUR,0.93'' @ [CHR 0x0A]"

definition eur_only_frame :: dataframe where
  "eur_only_frame = [(''Currency'', [Str ''EUR'']), (''Rate'', [Num (double_of_rat (93 / 100))])]"

definition empty_data :: dataframe where
  "empty_data = [(''Name'', []), (''MC_USD_Billion'', [])]"

definition default_gbp :: pyfloat where "default_gbp = double_of_rat (8 / 10)"

definition default_eur :: pyfloat where "default_eur = double_of_rat (93 / 100)"

definition default_inr :: pyfloat where "default_inr = double_of_rat (8295 / 100)"

definition sample_enriched :: dataframe where
  "sample_enriched =
     [(''Name'', [Str ''Test Bank 1'', Str ''Test Bank 2'']),
      (''MC_USD_Billion'', [Num (Fin 100), Num (Fin 200)]),
      (''MC_GBP_Billion'', [Num (Fin 80), Num (Fin 160)]),
      (''MC_EUR_Billion'', [Num (Fin 93), Num (Fin 186)]),
      (''MC_INR_Billion'', [Num (Fin 8295), Num (Fin 16590)])]"


definition sample_rates :: "cell \<rightharpoonup> cell" where
  "sample_rates = map_of [(Str ''INR'', Num default_inr), (Str ''GBP'', Num default_gbp),
                          (Str ''EUR'', Num default_eur)]"

definition eur_only_rates :: "cell \<rightharpoonup> cell" where
  "eur_only_rates = map_of [(Str ''EUR'', Num default_eur)]"

definition empty_enriched :: dataframe where
  "empty_enriched = [(''Name'', []), (''MC_USD_Billion'', []), (''MC_GBP_Billion'', []),
                     (''MC_EUR_Billion'', []), (''MC_INR_Billion'', [])]"

text \<open>
  A world whose database holds an older table of the same name, and the rows SQLite
  stores for the converted sample frame.
\<close>

definition db_world :: world where
  "db_world = world0\<lparr>tables := [''Largest_banks'' \<mapsto> [(''Name'', [SqlText ''Old Bank''])]]\<rparr>"

definition sample_table :: sqltable where
  "sample_table =
     [(''Name'', [SqlText ''Test Bank 1'', SqlText ''Test Bank 2'']),
      (''MC_USD_Billion'', [SqlReal (Fin 100), SqlReal (Fin 200)]),
      (''MC_GBP_Billion'', [SqlReal (Fin 80), SqlReal (Fin 160)]),
      (''MC_EUR_Billion'', [SqlReal (Fin 93), SqlReal (Fin 186)]),
      (''MC_INR_Billion'', [SqlReal (Fin 8295), SqlReal (Fin 16590)])]"

text \<open>
  Following the words of the specification: a value rounded to two decimal places is the
  number with two decimals nearest to it, a tie going to the even neighbour or away from
  zero, taken as a binary64 number.  \<open>spec_round True\<close> is also what the built-in
  \<open>round(x, 2)\<close> of Python returns.
\<close>

definition round_half_away :: "rat \<Rightarrow> int" where
  "round_half_away q =
     (let f = \<lfloor>\<bar>q\<bar>\<rfloor>; d = \<bar>q\<bar> - of_int f;
          n = (if d < 1 / 2 then f else f + 1)
      in if q < 0 then - n else n)"

definition spec_round :: "bool \<Rightarrow> pyfloat \<Rightarrow> nat \<Rightarrow> pyfloat" where
  "spec_round ties_to_even x decimals =
     (case x of
        Fin a \<Rightarrow>
          double_of_rat
            (of_int ((if ties_to_even then round_half_even else round_half_away) (a * 10 ^ decimals))
               / 10 ^ decimals)
      | _ \<Rightarrow> x)"

text \<open>
  A frame with one small bank; a world whose log file lies in a directory that does not
  exist; a rate file with a rate for \<open>GBP\<close> only.
\<close>

definition half_data :: dataframe where
  "half_data = [(''Name'', [Str ''Small Bank'']), (''MC_USD_Billion'', [Num (Fin (1 / 2))])]"


definition gbp_only_text :: string where
  "gbp_only_text = ''Currency,Rate'' @ [CHR 0x0A] @ ''GBP,0.8'' @ [CHR 0x0A]"

definition gbp_only_frame :: dataframe where
  "gbp_only_frame = [(''Currency'', [Str ''GBP'']), (''Rate'', [Num (double_of_rat (8 / 10))])]"

section \<open>Properties\<close>

lemma log_progress_returns: "fst (log_progress message log_file w) = Inr ()"
  by (simp add: log_progress_def Let_def split: prod.split sum.split)



subsection \<open>What logging leaves unchanged\<close>

lemma same_env_refl [simp]: "same_env w w"
  by (simp add: same_env_def)

lemma same_env_trans: "same_env w w1 \<Longrightarrow> same_env w1 w2 \<Longrightarrow> same_env w w2"
  by (simp add: same_env_def)

lemma same_env_print [simp]: "same_env w (print line w)"
  by (simp add: same_env_def print_def)

lemma open_for_writing_env: "open_for_writing t p w = Inr w' \<Longrightarrow> same_env w w'"
  by (auto simp: open_for_writing_def same_env_def split: if_splits option.splits)

lemma file_write_env: "file_write p txt w = Inr w' \<Longrightarrow> same_env w w'"
  by (auto simp: file_write_def same_env_def split: option.splits)

lemma log_body_env: "same_env w (snd (log_body message p w))"
proof (cases "open_for_writing False p w")
  case (Inl e)
  then show ?thesis by (simp add: log_body_def)
next
  case (Inr w1)
  then have e1: "same_env w w1" by (rule open_for_writing_env)
  show ?thesis
  proof (cases "file_write p (clock w @ '' : '' @ message @ [CHR 0x0A]) w1")
    case (Inl e)
    with Inr e1 show ?thesis by (simp add: log_body_def)
  next
    case w2: (Inr w2)
    then have "same_env w1 w2" by (rule file_write_env)
    with e1 have "same_env w (print (''[OK] '' @ message) w2)"
      by (simp add: same_env_def print_def)
    with Inr w2 show ?thesis by (simp add: log_body_def)
  qed
qed

lemma log_env: "same_env w (log message w)"
proof -
  have "same_env w (snd (log_body message (log_path w) w))"
    by (rule log_body_env)
  then show ?thesis
    by (cases "log_body message (log_path w) w")
       (auto simp: log_def log_progress_def same_env_def print_def split: sum.splits)
qed

lemma log_fields [simp]:
  "http_get (log m w) = http_get w"
  "wikitables (log m w) = wikitables w"
  "csv_parse (log m w) = csv_parse w"
  "csv_render (log m w) = csv_render w"
  "db_fault (log m w) = db_fault w"
  "tables (log m w) = tables w"
  "log_path (log m w) = log_path w"
  "dirs (log m w) = dirs w"
  using log_env [of w m] by (simp_all add: same_env_def)

subsection \<open>Extraction\<close>

lemma extract_rows_map_filter:
  "extract_rows rows data = data @ List.map_filter row_record rows"
  by (induction rows arbitrary: data)
     (simp_all add: List.map_filter_simps row_record_def mc_text_def Let_def split: option.split)

subsection \<open>Evaluating numbers\<close>

lemma floor_rat_numeral: "\<lfloor>numeral a / numeral b :: rat\<rfloor> = numeral a div numeral b"
  by (metis floor_divide_of_int_eq of_int_numeral)

lemma ceiling_rat_numeral: "\<lceil>numeral a / numeral b :: rat\<rceil> = - (- numeral a div numeral b)"
  using ceiling_divide_eq_div [of "numeral a" "numeral b"] by simp

lemma bit_length_numeral:
  "bit_length (numeral n) = Suc (bit_length (numeral n div 2))"
  "bit_length 0 = 0" "bit_length 1 = 1"
  by (simp_all add: bit_length.simps)

lemmas float_eval = double_of_rat_def floor_log2_def pow2_def round_half_even_def Let_def
  floor_rat_numeral ceiling_rat_numeral bit_length_numeral

lemmas parse_eval = py_float_def strip_with_def is_float_space_def take_sign_def lower_def
  parse_number_def digitpart_def is_digit_def parse_exponent_def int_of_digits_def
  digit_value_def pow10_def

lemma py_float_100: "py_float ''100'' = Some (Fin 100)"
  by (simp add: parse_eval) (simp add: float_eval)

lemma py_float_abc: "py_float ''abc'' = None"
  by (simp add: parse_eval)

lemma py_float_m5: "py_float ''-5'' = Some (Fin (- 5))"
  by (simp add: parse_eval) (simp add: float_eval)

lemma py_float_50: "py_float ''50'' = Some (Fin 50)"
  by (simp add: parse_eval) (simp add: float_eval)


lemma scenario_records:
  "List.map_filter row_record (tl scenario_table) = [(''Bank A'', Fin 100), (''Bank D'', Fin 50)]"
  by (simp add: scenario_table_def List.map_filter_simps row_record_def mc_text_def
      replace_char_def strip_def strip_with_def is_space_def
      py_float_100 py_float_abc py_float_m5 py_float_50)

text \<open>
  Claim C1.  When the page is fetched, has a table and names two columns, and at least
  one row after the header gives a record, \<open>extract\<close> does not fail: it returns the
  records of the rows that give one, in the order of the page, and passes over every row
  whose market-cap text is not a number or whose number is not greater than zero.
\<close>

theorem extract_skips_invalid_rows:
  assumes "http_get w url = Inr response_text"
    and "wikitables w response_text = target_table # others"
    and "length table_attribs = 2"
    and "\<exists>cols \<in> set (tl target_table). row_record cols \<noteq> None"
  shows "fst (extract_data url table_attribs w) =
           Inr [(table_attribs ! 0, map (\<lambda>r. Str (fst r)) (List.map_filter row_record (tl target_table))),
                (table_attribs ! 1, map (\<lambda>r. Num (snd r)) (List.map_filter row_record (tl target_table)))]"
proof -
  from assms(4) have "List.map_filter row_record (tl target_table) \<noteq> []"
    by (auto simp: List.map_filter_def filter_empty_conv)
  with assms(1-3) show ?thesis
    by (simp add: extract_data_def extract_body_def extract_rows_map_filter DataFrame_def Let_def)
qed

theorem extract_skips_invalid_rows_witness:
  "fst (extract_data ''https://en.wikipedia.org/wiki/List_of_largest_banks'' [''Name'', ''MC_USD_Billion'']
         (page_world scenario_table)) =
     Inr [(''Name'', [Str ''Bank A'', Str ''Bank D'']),
          (''MC_USD_Billion'', [Num (Fin 100), Num (Fin 50)])]"
proof -
  let ?w = "page_world scenario_table"
  have h1: "http_get ?w ''https://en.wikipedia.org/wiki/List_of_largest_banks'' = Inr ''<html>''"
    by (simp add: page_world_def)
  have h2: "wikitables ?w ''<html>'' = scenario_table # []"
    by (simp add: page_world_def)
  have h3: "length [''Name'', ''MC_USD_Billion''] = 2"
    by simp
  have "row_record [''1'', ''Bank A'', ''100''] \<noteq> None"
    by (simp add: row_record_def mc_text_def replace_char_def strip_def strip_with_def
        is_space_def py_float_100)
  then have h4: "\<exists>cols \<in> set (tl scenario_table). row_record cols \<noteq> None"
    by (simp add: scenario_table_def)
  show ?thesis
    using extract_skips_invalid_rows [OF h1 h2 h3 h4] by (simp add: scenario_records)
qed

lemma map_filter_empty: "(\<forall>x \<in> set xs. f x = None) \<Longrightarrow> List.map_filter f xs = []"
  by (induction xs) (simp_all add: List.map_filter_simps)

text \<open>
  Claim C3.  When the page is fetched and has a table but no row after the header gives a
  record, \<open>extract\<close> fails: it raises the exception \<open>ValueError("No valid data found")\<close>,
  which is how the program signals that no data was found, and returns no frame.
\<close>

theorem extract_no_valid_rows:
  assumes "http_get w url = Inr response_text"
    and "wikitables w response_text = target_table # others"
    and "\<forall>cols \<in> set (tl target_table). row_record cols = None"
  shows "fst (extract_data url table_attribs w) = Inl (ValueError ''No valid data found'')"
  using assms
  by (simp add: extract_data_def extract_body_def extract_rows_map_filter map_filter_empty Let_def)

theorem extract_no_valid_rows_witness:
  "fst (extract_data ''https://en.wikipedia.org/wiki/List_of_largest_banks'' [''Name'', ''MC_USD_Billion'']
         (page_world invalid_table)) = Inl (ValueError ''No valid data found'')"
proof -
  let ?w = "page_world invalid_table"
  have h1: "http_get ?w ''https://en.wikipedia.org/wiki/List_of_largest_banks'' = Inr ''<html>''"
    by (simp add: page_world_def)
  have h2: "wikitables ?w ''<html>'' = invalid_table # []"
    by (simp add: page_world_def)
  have h3: "\<forall>cols \<in> set (tl invalid_table). row_record cols = None"
    by (simp add: invalid_table_def row_record_def mc_text_def replace_char_def strip_def
        strip_with_def is_space_def py_float_abc py_float_m5)
  show ?thesis
    using extract_no_valid_rows [OF h1 h2 h3] .
qed

lemma map_filter_row_record_positive:
  "r \<in> set (List.map_filter row_record rows) \<Longrightarrow> fgt0 (snd r)"
  by (auto simp: List.map_filter_def row_record_def split: if_splits option.splits)

text \<open>
  Claim C4, as amended.  A frame returned by \<open>extract\<close> has two columns over the same
  records, at least one record, and every market capitalisation is greater than zero.
  Nothing is said of the names: the name is the stripped text of the second cell and is
  not checked.
\<close>

theorem extract_records_positive:
  assumes "extract_data url table_attribs w = (Inr df, w')"
  shows "\<exists>name_label mc_label records.
           df = [(name_label, map (\<lambda>r. Str (fst r)) records),
                 (mc_label, map (\<lambda>r. Num (snd r)) records)]
           \<and> records \<noteq> [] \<and> list_all (\<lambda>r. fgt0 (snd r)) records"
proof -
  from assms obtain w1 where b: "extract_body url table_attribs w = (Inr df, w1)"
    by (auto simp: extract_data_def split: prod.splits sum.splits)
  then obtain response_text target_table others where
    "DataFrame (List.map_filter row_record (tl target_table)) table_attribs = Inr df"
    and ne: "List.map_filter row_record (tl target_table) \<noteq> []"
    by (auto simp: extract_body_def extract_rows_map_filter Let_def
        split: sum.splits list.splits if_splits)
  then have "df = [(table_attribs ! 0, map (\<lambda>r. Str (fst r)) (List.map_filter row_record (tl target_table))),
                  (table_attribs ! 1, map (\<lambda>r. Num (snd r)) (List.map_filter row_record (tl target_table)))]"
    by (auto simp: DataFrame_def split: if_splits)
  moreover have "list_all (\<lambda>r. fgt0 (snd r)) (List.map_filter row_record (tl target_table))"
    by (auto simp: list_all_iff dest: map_filter_row_record_positive)
  ultimately show ?thesis
    using ne by blast
qed

theorem extract_records_positive_witness:
  "\<exists>name_label mc_label records.
     [(''Name'', [Str ''Bank A'', Str ''Bank D'']), (''MC_USD_Billion'', [Num (Fin 100), Num (Fin 50)])] =
       [(name_label, map (\<lambda>r. Str (fst r)) records), (mc_label, map (\<lambda>r. Num (snd r)) records)]
     \<and> records \<noteq> [] \<and> list_all (\<lambda>r. fgt0 (snd r)) records"
proof -
  let ?w = "page_world scenario_table"
  let ?url = "''https://en.wikipedia.org/wiki/List_of_largest_banks''"
  have "extract_data ?url [''Name'', ''MC_USD_Billion''] ?w =
          (Inr [(''Name'', [Str ''Bank A'', Str ''Bank D'']),
                (''MC_USD_Billion'', [Num (Fin 100), Num (Fin 50)])],
           snd (extract_data ?url [''Name'', ''MC_USD_Billion''] ?w))"
    by (simp add: extract_data_def extract_body_def page_world_def extract_rows_map_filter
        scenario_records DataFrame_def Let_def)
  then show ?thesis
    by (rule extract_records_positive)
qed

text \<open>
  The claim as it is written fails on a row whose second cell is empty: the record is
  kept, with the empty name.
\<close>

theorem extract_empty_name_counterexample:
  "fst (extract_data ''https://en.wikipedia.org/wiki/List_of_largest_banks'' [''Name'', ''MC_USD_Billion'']
         (page_world unnamed_table)) =
     Inr [(''Name'', [Str []]), (''MC_USD_Billion'', [Num (Fin 100)])]"
  by (simp add: extract_data_def extract_body_def page_world_def unnamed_table_def Let_def
      mc_text_def replace_char_def strip_def strip_with_def is_space_def py_float_100
      DataFrame_def)

subsection \<open>Transformation\<close>

lemma open_for_writing_files:
  "open_for_writing t p w = Inr w' \<Longrightarrow> q \<noteq> p \<Longrightarrow> files w' q = files w q"
  by (auto simp: open_for_writing_def split: if_splits option.splits)

lemma file_write_files:
  "file_write p txt w = Inr w' \<Longrightarrow> q \<noteq> p \<Longrightarrow> files w' q = files w q"
  by (auto simp: file_write_def split: option.splits)

lemma log_body_files: "q \<noteq> p \<Longrightarrow> files (snd (log_body message p w)) q = files w q"
proof (cases "open_for_writing False p w")
  case (Inl e)
  then show ?thesis by (simp add: log_body_def)
next
  case (Inr w1)
  assume q: "q \<noteq> p"
  with Inr have f1: "files w1 q = files w q" by (rule open_for_writing_files)
  show ?thesis
  proof (cases "file_write p (clock w @ '' : '' @ message @ [CHR 0x0A]) w1")
    case (Inl e)
    with Inr f1 show ?thesis by (simp add: log_body_def)
  next
    case w2: (Inr w2)
    from w2 q have "files w2 q = files w1 q" by (rule file_write_files)
    with Inr w2 f1 show ?thesis by (simp add: log_body_def print_def)
  qed
qed

lemma log_files: "q \<noteq> log_path w \<Longrightarrow> files (log message w) q = files w q"
  using log_body_files [of q "log_path w" message w]
  by (cases "log_body message (log_path w) w")
     (auto simp: log_def log_progress_def print_def split: sum.splits)

lemma is_dir_log [simp]: "is_dir (log message w) p = is_dir w p"
  by (simp add: is_dir_def)

lemma path_exists_log: "p \<noteq> log_path w \<Longrightarrow> path_exists (log message w) p = path_exists w p"
  by (simp add: path_exists_def log_files)

lemma filter_label_distinct:
  "distinct (map fst df) \<Longrightarrow> map_of df l = Some vs \<Longrightarrow> filter (\<lambda>c. fst c = l) df = [(l, vs)]"
proof (induction df)
  case Nil
  then show ?case by simp
next
  case (Cons c df)
  show ?case
  proof (cases "fst c = l")
    case True
    with Cons.prems have "l \<notin> fst ` set df" by auto
    then have "filter (\<lambda>c. fst c = l) df = []"
      by (auto simp: filter_empty_conv)
    with True Cons.prems show ?thesis by (cases c) auto
  next
    case False
    with Cons show ?thesis by (cases c) auto
  qed
qed

lemma column_values_distinct:
  "distinct (map fst df) \<Longrightarrow> map_of df l = Some vs \<Longrightarrow> column_values l df = Inr vs"
  by (simp add: column_values_def filter_label_distinct)

lemma convert_column_numbers:
  "R (Str currency) = Some (Num rate) \<Longrightarrow>
     convert_column R currency (map Num usd) = Inr (converted rate usd)"
  by (induction usd) (simp_all add: converted_def)

lemma convert_column_empty: "convert_column R currency [] = Inr []"
  by simp

lemma convert_column_missing:
  "R (Str currency) = None \<Longrightarrow> xs \<noteq> [] \<Longrightarrow> convert_column R currency xs = Inl (KeyError currency)"
  by (cases xs) simp_all

lemma map_fst_set_column:
  "map fst (set_column l vs df) = (if l \<in> set (map fst df) then map fst df else map fst df @ [l])"
  by (auto simp: set_column_def)

lemma distinct_set_column: "distinct (map fst df) \<Longrightarrow> distinct (map fst (set_column l vs df))"
  by (simp add: map_fst_set_column)

lemma map_of_relabel_other:
  "l' \<noteq> l \<Longrightarrow> map_of (map (\<lambda>c. if fst c = l then (l, vs) else c) df) l' = map_of df l'"
  by (induction df) auto

lemma map_of_relabel_same:
  "l \<in> fst ` set df \<Longrightarrow> map_of (map (\<lambda>c. if fst c = l then (l, vs) else c) df) l = Some vs"
  by (induction df) auto

lemma map_of_set_column_other: "l' \<noteq> l \<Longrightarrow> map_of (set_column l vs df) l' = map_of df l'"
  by (simp add: set_column_def map_of_relabel_other map_add_def split: option.split)

lemma map_of_set_column_same: "map_of (set_column l vs df) l = Some vs"
proof (cases "l \<in> fst ` set df")
  case True
  then show ?thesis by (simp add: set_column_def map_of_relabel_same)
next
  case False
  then have "map_of df l = None" by (simp add: map_of_eq_None_iff)
  with False show ?thesis by (simp add: set_column_def map_add_def)
qed

lemma filter_relabel_other:
  "\<not> P l \<Longrightarrow> filter (\<lambda>c. P (fst c)) (map (\<lambda>c. if fst c = l then (l, vs) else c) df)
     = filter (\<lambda>c. P (fst c)) df"
  by (induction df) auto

lemma filter_set_column_other:
  "\<not> P l \<Longrightarrow> filter (\<lambda>c. P (fst c)) (set_column l vs df) = filter (\<lambda>c. P (fst c)) df"
  by (simp add: set_column_def filter_relabel_other)

lemma assign_converted_numbers:
  assumes "distinct (map fst df)" "map_of df ''MC_USD_Billion'' = Some (map Num usd)"
    and "R (Str currency) = Some (Num rate)"
  shows "assign_converted R currency label df = Inr (set_column label (converted rate usd) df)"
  using assms by (simp add: assign_converted_def column_values_distinct convert_column_numbers)

lemma assign_converted_missing:
  assumes "distinct (map fst df)" "map_of df ''MC_USD_Billion'' = Some (map Num usd)" "usd \<noteq> []"
    and "R (Str currency) = None"
  shows "assign_converted R currency label df = Inl (KeyError currency)"
  using assms by (simp add: assign_converted_def column_values_distinct convert_column_missing)

lemma transform_body_rates:
  "transform_body df csv_path w =
     (case load_rates csv_path (log ''Starting data transformation...'' w) of
        (Inl e, w1) \<Rightarrow> (Inl e, df, w1)
      | (Inr R, w1) \<Rightarrow>
          (case assign_converted R ''GBP'' ''MC_GBP_Billion'' df of
             Inl e \<Rightarrow> (Inl e, df, w1)
           | Inr df1 \<Rightarrow>
               (case assign_converted R ''EUR'' ''MC_EUR_Billion'' df1 of
                  Inl e \<Rightarrow> (Inl e, df1, w1)
                | Inr df2 \<Rightarrow>
                    (case assign_converted R ''INR'' ''MC_INR_Billion'' df2 of
                       Inl e \<Rightarrow> (Inl e, df2, w1)
                     | Inr df3 \<Rightarrow>
                         (Inr df3, df3,
                          log ''Data transformation complete. Initiating Loading process'' w1)))))"
  by (simp add: transform_body_def)

lemma transform_numbers:
  assumes d: "distinct (map fst df)" and u: "map_of df ''MC_USD_Billion'' = Some (map Num usd)"
    and l: "load_rates csv_path (log ''Starting data transformation...'' w) = (Inr R, w1)"
    and g: "R (Str ''GBP'') = Some (Num gbp)"
    and e: "R (Str ''EUR'') = Some (Num eur)"
    and i: "R (Str ''INR'') = Some (Num inr)"
  shows "transform df csv_path w =
           (Inr (enriched gbp eur inr usd df), enriched gbp eur inr usd df,
            log ''Data transformation complete. Initiating Loading process'' w1)"
proof -
  let ?df1 = "set_column ''MC_GBP_Billion'' (converted gbp usd) df"
  let ?df2 = "set_column ''MC_EUR_Billion'' (converted eur usd) ?df1"
  have a1: "assign_converted R ''GBP'' ''MC_GBP_Billion'' df = Inr ?df1"
    using d u g by (rule assign_converted_numbers)
  have d1: "distinct (map fst ?df1)" using d by (rule distinct_set_column)
  have u1: "map_of ?df1 ''MC_USD_Billion'' = Some (map Num usd)"
    using u by (simp add: map_of_set_column_other)
  have a2: "assign_converted R ''EUR'' ''MC_EUR_Billion'' ?df1 = Inr ?df2"
    using d1 u1 e by (rule assign_converted_numbers)
  have d2: "distinct (map fst ?df2)" using d1 by (rule distinct_set_column)
  have u2: "map_of ?df2 ''MC_USD_Billion'' = Some (map Num usd)"
    using u1 by (simp add: map_of_set_column_other)
  have a3: "assign_converted R ''INR'' ''MC_INR_Billion'' ?df2 =
              Inr (set_column ''MC_INR_Billion'' (converted inr usd) ?df2)"
    using d2 u2 i by (rule assign_converted_numbers)
  show ?thesis
    by (simp add: transform_def transform_body_rates l a1 a2 a3 enriched_def)
qed

lemma assign_converted_filter:
  "assign_converted R currency label df = Inr df' \<Longrightarrow> \<not> P label \<Longrightarrow>
     filter (\<lambda>c. P (fst c)) df' = filter (\<lambda>c. P (fst c)) df"
  by (auto simp: assign_converted_def filter_set_column_other split: sum.splits)

lemma set_column_labels: "set (map fst (set_column l vs df)) = insert l (set (map fst df))"
  unfolding map_fst_set_column by auto

lemma assign_converted_labels:
  "assign_converted R currency label df = Inr df' \<Longrightarrow>
     set (map fst df') = insert label (set (map fst df))"
  unfolding assign_converted_def
  by (auto simp only: set_column_labels split: sum.splits)

lemma transform_body_same_object:
  "fst (transform_body df csv_path w) = Inr r \<Longrightarrow> fst (snd (transform_body df csv_path w)) = r"
  by (auto simp: transform_body_def split: prod.splits sum.splits)

lemma transform_same_object:
  "fst (transform df csv_path w) = Inr r \<Longrightarrow> fst (snd (transform df csv_path w)) = r"
  by (auto simp: transform_def transform_body_def split: prod.splits sum.splits)

lemma transform_fst: "fst (transform df csv_path w) = fst (transform_body df csv_path w)"
  by (auto simp: transform_def split: prod.splits sum.splits)

lemma transform_frame: "fst (snd (transform df csv_path w)) = fst (snd (transform_body df csv_path w))"
  by (auto simp: transform_def split: prod.splits sum.splits)

lemma transform_body_frame_filter:
  assumes "\<not> P ''MC_GBP_Billion''" "\<not> P ''MC_EUR_Billion''" "\<not> P ''MC_INR_Billion''"
  shows "filter (\<lambda>c. P (fst c)) (fst (snd (transform_body df csv_path w))) = filter (\<lambda>c. P (fst c)) df"
proof (cases "load_rates csv_path (log ''Starting data transformation...'' w)")
  case (Pair res w1)
  show ?thesis
  proof (cases res)
    case (Inl e)
    with Pair show ?thesis by (simp add: transform_body_def)
  next
    case (Inr R)
    note l = Pair [unfolded Inr]
    show ?thesis
    proof (cases "assign_converted R ''GBP'' ''MC_GBP_Billion'' df")
      case (Inl e)
      with l show ?thesis by (simp add: transform_body_def)
    next
      case a1: (Inr df1)
      have f1: "filter (\<lambda>c. P (fst c)) df1 = filter (\<lambda>c. P (fst c)) df"
        using a1 assms(1) by (rule assign_converted_filter)
      show ?thesis
      proof (cases "assign_converted R ''EUR'' ''MC_EUR_Billion'' df1")
        case (Inl e)
        with l a1 f1 show ?thesis by (simp add: transform_body_def)
      next
        case a2: (Inr df2)
        have f2: "filter (\<lambda>c. P (fst c)) df2 = filter (\<lambda>c. P (fst c)) df1"
          using a2 assms(2) by (rule assign_converted_filter)
        show ?thesis
        proof (cases "assign_converted R ''INR'' ''MC_INR_Billion'' df2")
          case (Inl e)
          with l a1 a2 f1 f2 show ?thesis by (simp add: transform_body_def)
        next
          case a3: (Inr df3)
          have "filter (\<lambda>c. P (fst c)) df3 = filter (\<lambda>c. P (fst c)) df2"
            using a3 assms(3) by (rule assign_converted_filter)
          with l a1 a2 a3 f1 f2 show ?thesis by (simp add: transform_body_def)
        qed
      qed
    qed
  qed
qed

lemma transform_body_labels:
  assumes "fst (transform_body df csv_path w) = Inr r"
  shows "set derived_labels \<subseteq> set (map fst r)"
proof -
  from assms obtain R df1 df2 where
    "assign_converted R ''GBP'' ''MC_GBP_Billion'' df = Inr df1"
    "assign_converted R ''EUR'' ''MC_EUR_Billion'' df1 = Inr df2"
    "assign_converted R ''INR'' ''MC_INR_Billion'' df2 = Inr r"
    by (auto simp: transform_body_def split: prod.splits sum.splits)
  then have "set (map fst r) =
      insert ''MC_INR_Billion'' (insert ''MC_EUR_Billion'' (insert ''MC_GBP_Billion'' (set (map fst df))))"
    by (simp only: assign_converted_labels)
  then show ?thesis
    by (simp only: derived_labels_def) auto
qed

lemma default_rates:
  "DEFAULT_EXCHANGE_RATES (Str ''GBP'') = Some (Num default_gbp)"
  "DEFAULT_EXCHANGE_RATES (Str ''EUR'') = Some (Num default_eur)"
  "DEFAULT_EXCHANGE_RATES (Str ''INR'') = Some (Num default_inr)"
  by (simp_all add: DEFAULT_EXCHANGE_RATES_def default_gbp_def default_eur_def default_inr_def)

lemma load_rates_default:
  assumes "\<not> path_exists w csv_path" "csv_path \<noteq> log_path w"
  shows "load_rates csv_path (log ''Starting data transformation...'' w) =
           (Inr DEFAULT_EXCHANGE_RATES,
            log ''Exchange rates CSV not found, using default rates''
              (log ''Starting data transformation...'' w))"
  using assms by (simp add: load_rates_def path_exists_log)

lemma load_rates_file:
  assumes "files w csv_path = Some txt" "\<not> is_dir w csv_path" "csv_path \<noteq> log_path w"
    and "csv_parse w txt = Inr rates_df"
  shows "load_rates csv_path (log ''Starting data transformation...'' w) =
           (rates_of_frame rates_df, log ''Starting data transformation...'' w)"
  using assms by (simp add: load_rates_def path_exists_def read_csv_def log_files)

lemma transform_default:
  assumes "\<not> path_exists w csv_path" "csv_path \<noteq> log_path w"
    and "distinct (map fst df)" "map_of df ''MC_USD_Billion'' = Some (map Num usd)"
  shows "transform df csv_path w =
           (Inr (enriched default_gbp default_eur default_inr usd df),
            enriched default_gbp default_eur default_inr usd df,
            log ''Data transformation complete. Initiating Loading process''
              (log ''Exchange rates CSV not found, using default rates''
                (log ''Starting data transformation...'' w)))"
  by (rule transform_numbers [OF assms(3,4) load_rates_default [OF assms(1,2)] default_rates])

lemma transform_converted:
  assumes "distinct (map fst df)" "map_of df ''MC_USD_Billion'' = Some (map Num usd)"
    and "rate_table csv_path w = Inr R"
    and "R (Str ''GBP'') = Some (Num gbp)" "R (Str ''EUR'') = Some (Num eur)"
        "R (Str ''INR'') = Some (Num inr)"
  shows "fst (transform df csv_path w) = Inr (enriched gbp eur inr usd df)"
proof -
  from assms(3) obtain w1 where
    "load_rates csv_path (log ''Starting data transformation...'' w) = (Inr R, w1)"
    by (cases "load_rates csv_path (log ''Starting data transformation...'' w)")
       (simp add: rate_table_def)
  from transform_numbers [OF assms(1,2) this assms(4-6)] show ?thesis
    by simp
qed

lemma enriched_other_columns:
  "filter (\<lambda>c. fst c \<notin> set derived_labels) (enriched gbp eur inr usd df)
     = filter (\<lambda>c. fst c \<notin> set derived_labels) df"
proof -
  have "filter (\<lambda>c. fst c \<notin> set derived_labels) (set_column l vs d)
          = filter (\<lambda>c. fst c \<notin> set derived_labels) d" if "l \<in> set derived_labels" for l vs d
    using that by (intro filter_set_column_other [where P = "\<lambda>l. l \<notin> set derived_labels"]) simp
  then show ?thesis
    by (simp add: enriched_def derived_labels_def)
qed

lemma enriched_columns:
  assumes "distinct (map fst df)"
  shows "map_of (enriched gbp eur inr usd df) ''MC_GBP_Billion'' = Some (converted gbp usd)"
    and "map_of (enriched gbp eur inr usd df) ''MC_EUR_Billion'' = Some (converted eur usd)"
    and "map_of (enriched gbp eur inr usd df) ''MC_INR_Billion'' = Some (converted inr usd)"
    and "distinct (map fst (enriched gbp eur inr usd df))"
  using assms
  by (simp_all add: enriched_def map_of_set_column_same map_of_set_column_other
      distinct_set_column)

lemma transform_first_missing:
  assumes d: "distinct (map fst df)" and u: "map_of df ''MC_USD_Billion'' = Some (map Num usd)"
    and ne: "usd \<noteq> []"
    and l: "load_rates csv_path (log ''Starting data transformation...'' w) = (Inr R, w1)"
    and m: "R (Str ''GBP'') = None \<or> R (Str ''EUR'') = None \<or> R (Str ''INR'') = None"
    and n: "\<forall>c \<in> set [''GBP'', ''EUR'', ''INR'']. \<forall>x. R (Str c) = Some x \<longrightarrow> (\<exists>r. x = Num r)"
  shows "fst (transform_body df csv_path w) = Inl (KeyError (first_missing R))"
proof (cases "R (Str ''GBP'')")
  case None
  with assign_converted_missing [where currency = "''GBP''" and label = "''MC_GBP_Billion''", OF d u ne] l
  show ?thesis
    by (simp add: transform_body_def first_missing_def)
next
  case (Some x)
  with n obtain gbp where g: "R (Str ''GBP'') = Some (Num gbp)" by auto
  let ?df1 = "set_column ''MC_GBP_Billion'' (converted gbp usd) df"
  have a1: "assign_converted R ''GBP'' ''MC_GBP_Billion'' df = Inr ?df1"
    using d u g by (rule assign_converted_numbers)
  have d1: "distinct (map fst ?df1)" using d by (rule distinct_set_column)
  have u1: "map_of ?df1 ''MC_USD_Billion'' = Some (map Num usd)"
    using u by (simp add: map_of_set_column_other)
  show ?thesis
  proof (cases "R (Str ''EUR'')")
    case None
    with assign_converted_missing [where currency = "''EUR''" and label = "''MC_EUR_Billion''", OF d1 u1 ne]
      l a1 g
    show ?thesis
      by (simp add: transform_body_def first_missing_def)
  next
    case (Some y)
    with n obtain eur where e: "R (Str ''EUR'') = Some (Num eur)" by auto
    let ?df2 = "set_column ''MC_EUR_Billion'' (converted eur usd) ?df1"
    have a2: "assign_converted R ''EUR'' ''MC_EUR_Billion'' ?df1 = Inr ?df2"
      using d1 u1 e by (rule assign_converted_numbers)
    have d2: "distinct (map fst ?df2)" using d1 by (rule distinct_set_column)
    have u2: "map_of ?df2 ''MC_USD_Billion'' = Some (map Num usd)"
      using u1 by (simp add: map_of_set_column_other)
    from m g e have i: "R (Str ''INR'') = None" by simp
    with assign_converted_missing [where currency = "''INR''" and label = "''MC_INR_Billion''", OF d2 u2 ne]
      l a1 a2 g e
    show ?thesis
      by (simp add: transform_body_def first_missing_def)
  qed
qed

lemma rate_table_file:
  assumes "files w csv_path = Some content" "\<not> is_dir w csv_path" "csv_path \<noteq> log_path w"
    and "csv_parse w content = Inr rates_df"
  shows "rate_table csv_path w = rates_of_frame rates_df"
  using load_rates_file [OF assms] by (simp add: rate_table_def)



subsection \<open>The sample frames and worlds\<close>

lemma default_values:
  "default_gbp = Fin (3602879701896397 / 4503599627370496)"
  "default_eur = Fin (8376695306909123 / 9007199254740992)"
  "default_inr = Fin (5837087329537229 / 70368744177664)"
  by (simp_all add: default_gbp_def default_eur_def default_inr_def float_eval)

lemma np_round_sample:
  "np_round (fmul (Fin 100) default_gbp) 2 = Fin 80"
  "np_round (fmul (Fin 200) default_gbp) 2 = Fin 160"
  "np_round (fmul (Fin 100) default_eur) 2 = Fin 93"
  "np_round (fmul (Fin 200) default_eur) 2 = Fin 186"
  "np_round (fmul (Fin 100) default_inr) 2 = Fin 8295"
  "np_round (fmul (Fin 200) default_inr) 2 = Fin 16590"
  by (simp_all add: default_values np_round_def) (simp_all add: float_eval)

lemma converted_sample:
  "converted default_gbp [Fin 100, Fin 200] = [Num (Fin 80), Num (Fin 160)]"
  "converted default_eur [Fin 100, Fin 200] = [Num (Fin 93), Num (Fin 186)]"
  "converted default_inr [Fin 100, Fin 200] = [Num (Fin 8295), Num (Fin 16590)]"
  by (simp_all add: converted_def np_round_sample)

lemma enriched_sample:
  "enriched default_gbp default_eur default_inr [Fin 100, Fin 200] sample_data = sample_enriched"
  by (simp add: enriched_def converted_sample sample_data_def sample_enriched_def set_column_def)

lemma rate_table_csv_world:
  "rate_table ''./data/exchange_rate.csv'' (csv_world content frame) = rates_of_frame frame"
  by (rule rate_table_file [where content = content])
     (simp_all add: csv_world_def world0_def is_dir_def all_slashes_def rstrip_slashes_def)

lemma rates_of_frames:
  "rates_of_frame rates_frame = Inr sample_rates"
  "rates_of_frame eur_only_frame = Inr eur_only_rates"
  by (simp_all add: rates_of_frame_def rates_frame_def eur_only_frame_def sample_rates_def
      eur_only_rates_def default_gbp_def default_eur_def default_inr_def)

lemma sample_data_frame:
  "distinct (map fst sample_data)"
  "map_of sample_data ''MC_USD_Billion'' = Some (map Num [Fin 100, Fin 200])"
  "filter (\<lambda>c. fst c \<notin> set derived_labels) sample_data = sample_data"
  by (simp_all add: sample_data_def derived_labels_def)

lemma half_data_frame:
  "distinct (map fst half_data)"
  "map_of half_data ''MC_USD_Billion'' = Some (map Num [Fin (1 / 2)])"
  by (simp_all add: half_data_def)

lemma world0_no_rate_file:
  "\<not> path_exists world0 ''./data/exchange_rate.csv''"
  "''./data/exchange_rate.csv'' \<noteq> log_path world0"
  by (simp_all add: path_exists_def is_dir_def all_slashes_def world0_def)


lemma transform_sample_default:
  "transform sample_data ''./data/exchange_rate.csv'' world0 =
     (Inr sample_enriched, sample_enriched,
      log ''Data transformation complete. Initiating Loading process''
        (log ''Exchange rates CSV not found, using default rates''
          (log ''Starting data transformation...'' world0)))"
  using transform_default [OF world0_no_rate_file sample_data_frame(1,2)]
  by (simp add: enriched_sample)

subsection \<open>The converted columns\<close>

text \<open>
  Claim C2, as amended.  For a frame whose column \<open>MC_USD_Billion\<close> holds the numbers
  \<open>usd\<close> and a rate table with numbers for \<open>GBP\<close>, \<open>EUR\<close> and \<open>INR\<close>, \<open>transform\<close>
  returns a frame whose converted columns hold, row by row, \<open>np.round(u * rate, 2)\<close>:
  the product in binary64, multiplied by 100, rounded to the nearest integer with ties to
  even and divided by 100.  The other columns are as they were, so the order of the
  records is kept.
\<close>

theorem transform_converts_in_order:
  assumes "distinct (map fst df)"
    and "map_of df ''MC_USD_Billion'' = Some (map Num usd)"
    and "rate_table csv_path w = Inr R"
    and "R (Str ''GBP'') = Some (Num gbp)"
    and "R (Str ''EUR'') = Some (Num eur)"
    and "R (Str ''INR'') = Some (Num inr)"
  shows "\<exists>df'. fst (transform df csv_path w) = Inr df'
           \<and> map_of df' ''MC_GBP_Billion'' = Some (map (\<lambda>u. Num (np_round (fmul u gbp) 2)) usd)
           \<and> map_of df' ''MC_EUR_Billion'' = Some (map (\<lambda>u. Num (np_round (fmul u eur) 2)) usd)
           \<and> map_of df' ''MC_INR_Billion'' = Some (map (\<lambda>u. Num (np_round (fmul u inr) 2)) usd)
           \<and> filter (\<lambda>c. fst c \<notin> set derived_labels) df'
               = filter (\<lambda>c. fst c \<notin> set derived_labels) df
           \<and> distinct (map fst df')"
  using transform_converted [OF assms] enriched_columns [OF assms(1), of gbp eur inr usd]
    enriched_other_columns [of gbp eur inr usd df]
  by (simp add: converted_def)

theorem transform_converts_in_order_witness:
  "\<exists>df'. fst (transform sample_data ''./data/exchange_rate.csv'' (csv_world rates_text rates_frame)) = Inr df'
     \<and> map_of df' ''MC_GBP_Billion'' = Some [Num (Fin 80), Num (Fin 160)]
     \<and> map_of df' ''MC_EUR_Billion'' = Some [Num (Fin 93), Num (Fin 186)]
     \<and> map_of df' ''MC_INR_Billion'' = Some [Num (Fin 8295), Num (Fin 16590)]
     \<and> filter (\<lambda>c. fst c \<notin> set derived_labels) df' = sample_data
     \<and> distinct (map fst df')"
proof -
  have r: "rate_table ''./data/exchange_rate.csv'' (csv_world rates_text rates_frame) = Inr sample_rates"
    by (simp add: rate_table_csv_world rates_of_frames)
  have g: "sample_rates (Str ''GBP'') = Some (Num default_gbp)"
    and e: "sample_rates (Str ''EUR'') = Some (Num default_eur)"
    and i: "sample_rates (Str ''INR'') = Some (Num default_inr)"
    by (simp_all add: sample_rates_def)
  show ?thesis
    using transform_converts_in_order [OF sample_data_frame(1,2) r g e i]
    by (simp add: np_round_sample sample_data_frame(3))
qed

lemma half_eur_product: "fmul (Fin (1 / 2)) default_eur = Fin (8376695306909123 / 18014398509481984)"
  by (simp add: default_values) (simp add: float_eval)

lemma half_eur_scaled: "fmul (Fin (8376695306909123 / 18014398509481984)) (Fin (10 ^ 2)) = Fin (93 / 2)"
  by simp (simp add: float_eval)

lemma half_eur_rint: "rint (Fin (93 / 2)) = Fin 46"
  by (simp add: float_eval)

lemma half_eur_divided: "fdiv (Fin 46) (Fin (10 ^ 2)) = Fin (8286623314361713 / 18014398509481984)"
  by simp (simp add: float_eval)

lemma np_round_half_eur:
  "np_round (fmul (Fin (1 / 2)) default_eur) 2 = Fin (8286623314361713 / 18014398509481984)"
  by (simp only: np_round_def half_eur_product half_eur_scaled half_eur_rint half_eur_divided)

lemma half_eur_nearest:
  "round_half_even (209417382672728075 / 4503599627370496) = 47"
  "round_half_away (209417382672728075 / 4503599627370496) = 47"
  by (simp_all add: round_half_even_def round_half_away_def floor_rat_numeral Let_def)

lemma double_047: "double_of_rat (47 / 100) = Fin (2116691824864133 / 4503599627370496)"
  by (simp add: float_eval)

lemma spec_round_half_eur:
  "spec_round True (fmul (Fin (1 / 2)) default_eur) 2 = Fin (2116691824864133 / 4503599627370496)"
  "spec_round False (fmul (Fin (1 / 2)) default_eur) 2 = Fin (2116691824864133 / 4503599627370496)"
  using double_047 by (simp_all add: spec_round_def half_eur_product half_eur_nearest)

text \<open>
  The claim as it is written, with \<open>round\<close> the rounding to two decimal places, fails
  for a bank of half a billion dollars and the default rate \<open>0.93\<close>: the product is the
  binary64 number just above \<open>0.465\<close>, whose nearest number with two decimals is
  \<open>0.47\<close> whichever way ties go, but its hundredfold is rounded to \<open>46.5\<close> in binary64
  and then to \<open>46\<close>, so \<open>transform\<close> stores \<open>0.46\<close>.
\<close>

theorem transform_rounding_counterexample:
  "fst (transform half_data ''./data/exchange_rate.csv'' world0)
     = Inr (enriched default_gbp default_eur default_inr [Fin (1 / 2)] half_data)
   \<and> map_of (enriched default_gbp default_eur default_inr [Fin (1 / 2)] half_data) ''MC_EUR_Billion''
     = Some [Num (Fin (8286623314361713 / 18014398509481984))]
   \<and> spec_round True (fmul (Fin (1 / 2)) default_eur) 2 = Fin (2116691824864133 / 4503599627370496)
   \<and> spec_round False (fmul (Fin (1 / 2)) default_eur) 2 = Fin (2116691824864133 / 4503599627370496)
   \<and> Fin (8286623314361713 / 18014398509481984) \<noteq> Fin (2116691824864133 / 4503599627370496)"
  using transform_default [OF world0_no_rate_file half_data_frame]
    enriched_columns(2) [OF half_data_frame(1), of default_gbp default_eur default_inr "[Fin (1 / 2)]"]
  by (simp add: spec_round_half_eur converted_def np_round_half_eur)

subsection \<open>The frame of the caller\<close>

text \<open>
  Claim C5, as amended.  \<open>transform\<close> works on the frame it is given: after the call
  the frame of the caller has every column whose label is not one of the three converted
  labels exactly as before, in the same order, so the names and the values in US dollars
  are unchanged; the frame returned on success is that same frame, and it has the three
  converted columns.
\<close>

theorem transform_updates_in_place:
  "filter (\<lambda>c. fst c \<notin> set derived_labels) (fst (snd (transform df csv_path w)))
     = filter (\<lambda>c. fst c \<notin> set derived_labels) df
   \<and> (\<forall>r. fst (transform df csv_path w) = Inr r \<longrightarrow>
          fst (snd (transform df csv_path w)) = r \<and> set derived_labels \<subseteq> set (map fst r))"
proof -
  have "filter (\<lambda>c. fst c \<notin> set derived_labels) (fst (snd (transform_body df csv_path w)))
     = filter (\<lambda>c. fst c \<notin> set derived_labels) df"
    by (rule transform_body_frame_filter) (simp_all add: derived_labels_def)
  then show ?thesis
    unfolding transform_frame transform_fst
    using transform_body_labels transform_body_same_object by blast
qed

theorem transform_updates_in_place_witness:
  "filter (\<lambda>c. fst c \<notin> set derived_labels)
      (fst (snd (transform sample_data ''./data/exchange_rate.csv'' world0))) = sample_data
   \<and> fst (snd (transform sample_data ''./data/exchange_rate.csv'' world0)) = sample_enriched
   \<and> set derived_labels \<subseteq> set (map fst sample_enriched)"
  using transform_updates_in_place [of sample_data "''./data/exchange_rate.csv''" world0]
  by (simp add: transform_sample_default sample_data_frame(3))

text \<open>
  The claim as it is written fails: the frame handed to \<open>transform\<close> is not left as it
  was, it has three more columns after the call.
\<close>

theorem transform_mutates_input_counterexample:
  "fst (snd (transform sample_data ''./data/exchange_rate.csv'' world0)) \<noteq> sample_data"
  unfolding transform_sample_default by (simp add: sample_enriched_def sample_data_def)

subsection \<open>Missing rates and the missing rate file\<close>

text \<open>
  Claim C6, as amended.  When the rate table that \<open>transform\<close> loads lacks one of
  \<open>GBP\<close>, \<open>EUR\<close>, \<open>INR\<close> (the default table has all three, so the table comes from
  the file), its other rates are numbers and the frame has at least one row, then
  \<open>transform\<close> returns no frame: it raises \<open>KeyError\<close> for the first missing key, the
  exception by which the program signals the missing rate.
\<close>

theorem transform_missing_key:
  assumes "distinct (map fst df)"
    and "map_of df ''MC_USD_Billion'' = Some (map Num usd)"
    and "usd \<noteq> []"
    and "rate_table csv_path w = Inr R"
    and "R (Str ''GBP'') = None \<or> R (Str ''EUR'') = None \<or> R (Str ''INR'') = None"
    and "\<forall>c \<in> set [''GBP'', ''EUR'', ''INR'']. \<forall>x. R (Str c) = Some x \<longrightarrow> (\<exists>r. x = Num r)"
  shows "fst (transform df csv_path w) = Inl (KeyError (first_missing R))"
proof -
  from assms(4) obtain w1 where
    "load_rates csv_path (log ''Starting data transformation...'' w) = (Inr R, w1)"
    by (cases "load_rates csv_path (log ''Starting data transformation...'' w)")
       (simp add: rate_table_def)
  from transform_first_missing [OF assms(1-3) this assms(5,6)] show ?thesis
    by (simp add: transform_fst)
qed

theorem transform_missing_key_witness:
  "fst (transform sample_data ''./data/exchange_rate.csv'' (csv_world eur_only_text eur_only_frame))
     = Inl (KeyError ''GBP'')"
proof -
  have r: "rate_table ''./data/exchange_rate.csv'' (csv_world eur_only_text eur_only_frame)
             = Inr eur_only_rates"
    by (simp add: rate_table_csv_world rates_of_frames)
  have ne: "[Fin 100, Fin 200 :: pyfloat] \<noteq> []"
    by simp
  have m: "eur_only_rates (Str ''GBP'') = None \<or> eur_only_rates (Str ''EUR'') = None
             \<or> eur_only_rates (Str ''INR'') = None"
    by (simp add: eur_only_rates_def)
  have n: "\<forall>c \<in> set [''GBP'', ''EUR'', ''INR'']. \<forall>x. eur_only_rates (Str c) = Some x \<longrightarrow> (\<exists>r. x = Num r)"
    by (simp add: eur_only_rates_def)
  have "first_missing eur_only_rates = ''GBP''"
    by (simp add: first_missing_def eur_only_rates_def)
  with transform_missing_key [OF sample_data_frame(1,2) ne r m n] show ?thesis
    by simp
qed

text \<open>
  The claim as it is written fails on a frame without rows: the rates are looked up once
  for each row, so nothing is looked up and \<open>transform\<close> succeeds although the file has
  no rate for \<open>GBP\<close> and \<open>INR\<close>.
\<close>

theorem transform_empty_frame_counterexample:
  "fst (transform empty_data ''./data/exchange_rate.csv'' (csv_world eur_only_text eur_only_frame))
     = Inr empty_enriched"
proof -
  let ?w = "csv_world eur_only_text eur_only_frame"
  have "files ?w ''./data/exchange_rate.csv'' = Some eur_only_text"
    and "\<not> is_dir ?w ''./data/exchange_rate.csv''"
    and "''./data/exchange_rate.csv'' \<noteq> log_path ?w"
    and "csv_parse ?w eur_only_text = Inr eur_only_frame"
    by (simp_all add: csv_world_def world0_def is_dir_def all_slashes_def rstrip_slashes_def)
  then have l: "load_rates ''./data/exchange_rate.csv'' (log ''Starting data transformation...'' ?w)
      = (Inr eur_only_rates, log ''Starting data transformation...'' ?w)"
    by (simp add: load_rates_file rates_of_frames)
  show ?thesis
    by (simp add: transform_fst transform_body_def l assign_converted_def column_values_def
        empty_data_def empty_enriched_def set_column_def)
qed

text \<open>
  A missing rate stops \<open>transform\<close> where it is: with a rate for \<open>GBP\<close> only, the
  caller's frame has the column in pounds when \<open>KeyError\<close> is raised for \<open>EUR\<close>.
\<close>

lemma transform_keeps_converted_columns:
  "transform sample_data ''./data/exchange_rate.csv'' (csv_world gbp_only_text gbp_only_frame) =
     (Inl (KeyError ''EUR''),
      sample_data @ [(''MC_GBP_Billion'', [Num (Fin 80), Num (Fin 160)])],
      log (''Transformation error: '' @ [CHR 0x27] @ ''EUR'' @ [CHR 0x27])
        (log ''Starting data transformation...'' (csv_world gbp_only_text gbp_only_frame)))"
proof -
  let ?w = "csv_world gbp_only_text gbp_only_frame"
  have "files ?w ''./data/exchange_rate.csv'' = Some gbp_only_text"
    and "\<not> is_dir ?w ''./data/exchange_rate.csv''"
    and "''./data/exchange_rate.csv'' \<noteq> log_path ?w"
    and "csv_parse ?w gbp_only_text = Inr gbp_only_frame"
    by (simp_all add: csv_world_def world0_def is_dir_def all_slashes_def rstrip_slashes_def)
  then have l: "load_rates ''./data/exchange_rate.csv'' (log ''Starting data transformation...'' ?w)
      = (rates_of_frame gbp_only_frame, log ''Starting data transformation...'' ?w)"
    by (simp add: load_rates_file)
  have r: "rates_of_frame gbp_only_frame = Inr (map_of [(Str ''GBP'', Num default_gbp)])"
    by (simp add: rates_of_frame_def gbp_only_frame_def default_gbp_def)
  show ?thesis
    by (simp add: transform_def transform_body_def l r assign_converted_def column_values_def
        sample_data_def set_column_def np_round_sample)
qed



subsection \<open>Loading\<close>

lemma load_to_db_tables:
  "tables (snd (load_to_db df table_name w)) =
     (case db_fault w table_name df of
        Some e \<Rightarrow> tables w
      | None \<Rightarrow> (tables w)(table_name \<mapsto> sql_table_of df))"
  by (simp add: load_to_db_def to_sql_def split: option.split)

lemma load_to_db_result:
  "fst (load_to_db df table_name w) =
     (case db_fault w table_name df of Some e \<Rightarrow> Inl e | None \<Rightarrow> Inr ())"
  by (simp add: load_to_db_def to_sql_def split: option.split)

lemma load_to_db_fault: "db_fault (snd (load_to_db df table_name w)) = db_fault w"
  by (simp add: load_to_db_def to_sql_def split: option.split)

text \<open>
  Claim C8.  Loading the same frame under the same table name twice leaves the database
  as loading it once does, and the second call ends as the first; when the load succeeds
  the table holds the rows of the frame and nothing else, whatever it held before.
\<close>

theorem load_to_db_idempotent:
  "tables (snd (load_to_db df table_name (snd (load_to_db df table_name w))))
     = tables (snd (load_to_db df table_name w))
   \<and> fst (load_to_db df table_name (snd (load_to_db df table_name w)))
     = fst (load_to_db df table_name w)
   \<and> (fst (load_to_db df table_name w) = Inr () \<longrightarrow>
        tables (snd (load_to_db df table_name w)) = (tables w)(table_name \<mapsto> sql_table_of df))"
  by (simp add: load_to_db_tables load_to_db_result load_to_db_fault split: option.split)

lemma sql_table_of_sample: "sql_table_of sample_enriched = sample_table"
  by (simp add: sql_table_of_def sample_enriched_def sample_table_def)

theorem load_to_db_idempotent_witness:
  "tables (snd (load_to_db sample_enriched ''Largest_banks''
             (snd (load_to_db sample_enriched ''Largest_banks'' db_world))))
     = [''Largest_banks'' \<mapsto> sample_table]
   \<and> tables (snd (load_to_db sample_enriched ''Largest_banks'' db_world))
     = [''Largest_banks'' \<mapsto> sample_table]
   \<and> fst (load_to_db sample_enriched ''Largest_banks''
             (snd (load_to_db sample_enriched ''Largest_banks'' db_world))) = Inr ()"
proof -
  have r: "fst (load_to_db sample_enriched ''Largest_banks'' db_world) = Inr ()"
    by (simp add: load_to_db_result db_world_def world0_def)
  have t: "tables db_world = [''Largest_banks'' \<mapsto> [(''Name'', [SqlText ''Old Bank''])]]"
    by (simp add: db_world_def)
  show ?thesis
    using load_to_db_idempotent [of sample_enriched "''Largest_banks''" db_world]
    by (simp add: r t sql_table_of_sample)
qed

lemma makedirs_empty: "makedirs [] w = Inl (FileNotFoundError [])"
  by (simp add: makedirs.simps makedirs_split_def split_path_def mkdir_exist_ok_def mkdir_def is_dir_def)

lemma dirname_bare: "dirname ''Largest_banks_data.csv'' = []"
  by (simp add: dirname_def split_path_def)

text \<open>
  Claim C9 does not hold for a path without a directory part.  \<open>os.path.dirname\<close> of
  such a path is the empty string, \<open>os.makedirs\<close> of the empty string raises
  \<open>FileNotFoundError\<close>, and \<open>load_to_csv\<close> raises it again before anything is written:
  for every frame and every world the call with a bare file name fails.
\<close>

theorem load_to_csv_bare_filename_fails:
  "fst (load_to_csv df ''Largest_banks_data.csv'' w) = Inl (FileNotFoundError [])"
  by (simp add: load_to_csv_def dirname_bare makedirs_empty)

lemma load_to_csv_no_directory_part:
  "dirname output_path = [] \<Longrightarrow> fst (load_to_csv df output_path w) = Inl (FileNotFoundError [])"
  by (simp add: load_to_csv_def makedirs_empty)

lemma split_out: "split_path ''data/out'' = (''data'', ''out'')"
  by (simp add: split_path_def all_slashes_def rstrip_slashes_def)

lemma split_data: "split_path ''data'' = ([], ''data'')"
  by (simp add: split_path_def all_slashes_def rstrip_slashes_def)

lemma makedirs_data_out:
  "makedirs ''data/out'' world0 = Inr (world0\<lparr>dirs := {''data/out'', ''data''}\<rparr>)"
  apply (subst makedirs.simps)
  apply (simp add: makedirs_split_def split_out path_exists_def is_dir_def all_slashes_def
      rstrip_slashes_def world0_def)
  apply (subst makedirs.simps)
  apply (simp add: makedirs_split_def split_data mkdir_exist_ok_def mkdir_def path_exists_def
      is_dir_def all_slashes_def rstrip_slashes_def dirname_def split_out)
  done

text \<open>
  With a directory part the claim is what the code does: on an empty file system the two
  missing directories are made and the file is written.
\<close>

lemma load_to_csv_creates_parents:
  "fst (load_to_csv sample_enriched ''data/out/Largest_banks_data.csv'' world0) = Inr ()
   \<and> dirs (snd (load_to_csv sample_enriched ''data/out/Largest_banks_data.csv'' world0))
       = {''data/out'', ''data''}
   \<and> files (snd (load_to_csv sample_enriched ''data/out/Largest_banks_data.csv'' world0))
        ''data/out/Largest_banks_data.csv'' = Some (csv_render world0 sample_enriched)"
proof -
  have d: "dirname ''data/out/Largest_banks_data.csv'' = ''data/out''"
    by (simp add: dirname_def split_path_def all_slashes_def rstrip_slashes_def)
  let ?w1 = "world0\<lparr>dirs := {''data/out'', ''data''}\<rparr>"
  have c: "to_csv sample_enriched ''data/out/Largest_banks_data.csv'' ?w1 =
      Inr (?w1\<lparr>files := [''data/out/Largest_banks_data.csv'' \<mapsto> csv_render world0 sample_enriched]\<rparr>)"
    by (simp add: to_csv_def open_for_writing_def file_write_def d is_dir_def all_slashes_def
        rstrip_slashes_def world0_def)
  have p: "''data/out/Largest_banks_data.csv'' \<noteq> log_path (?w1\<lparr>files := [''data/out/Largest_banks_data.csv'' \<mapsto> csv_render world0 sample_enriched]\<rparr>)"
    by (simp add: world0_def)
  show ?thesis
    by (simp add: load_to_csv_def d makedirs_data_out c log_files [OF p])
qed

end
